theory Spec2Isabelle
  imports Main
begin

section \<open>Object references and JavaScript values\<close>

text \<open>
  Two copies of the library are verified side by side:
  \<^item> \<^verbatim>\<open>public/lib/backstackjs/js/backstack.js\<close>, whose definitions keep the source's names;
  \<^item> \<^verbatim>\<open>unnamed/part_001\<close>, whose definitions carry the suffix \<open>_p1\<close> where they differ.
  The class \<open>Backstack\<close>, the functions of \<open>Screen\<close> that bind and clear the overrides,
  \<open>Tab.destroy\<close> and \<open>TabBar.findTab\<close> are the same in both.

  Screens and Tabs are objects: they are held by reference and mutated in place, and the
  callbacks of the library capture them. A reference is a natural number; the objects live
  in a store that is part of the state.
\<close>

type_synonym ref = nat
type_synonym tabref = nat

text \<open>What an array read or \<open>Array.pop\<close> can yield here: an object or \<open>undefined\<close>.\<close>

datatype jsval = Undefined | Obj ref

fun truthy :: "jsval \<Rightarrow> bool" where
  "truthy Undefined = False"
| "truthy (Obj r) = True"

definition truthy_number :: "nat \<Rightarrow> bool" where
  "truthy_number n = (n \<noteq> 0)"

definition array_pop :: "ref list \<Rightarrow> jsval \<times> ref list" where
  "array_pop xs = (if xs = [] then (Undefined, []) else (Obj (last xs), butlast xs))"

definition array_push :: "ref list \<Rightarrow> ref \<Rightarrow> nat \<times> ref list" where
  "array_push xs x = (length xs + 1, xs @ [x])"

text \<open>\<open>xs[i]\<close> for an integer index: \<open>undefined\<close> outside the array, also at \<open>-1\<close>.\<close>

definition array_get :: "ref list \<Rightarrow> int \<Rightarrow> jsval" where
  "array_get xs i = (if 0 \<le> i \<and> i < int (length xs) then Obj (xs ! nat i) else Undefined)"

section \<open>Backstack\<close>

record Backstack =
  screens :: "ref list"

definition pop :: "Backstack \<Rightarrow> bool \<times> Backstack" where
  "pop b =
     (if length (screens b) > 1
      then (case array_pop (screens b) of (v, xs) \<Rightarrow> (if truthy v then True else False, b\<lparr>screens := xs\<rparr>))
      else (False, b))"

definition popForced :: "Backstack \<Rightarrow> bool \<times> Backstack" where
  "popForced b =
     (if length (screens b) \<ge> 1
      then (case array_pop (screens b) of (v, xs) \<Rightarrow> (if truthy v then True else False, b\<lparr>screens := xs\<rparr>))
      else (False, b))"

definition push :: "Backstack \<Rightarrow> ref \<Rightarrow> bool \<times> Backstack" where
  "push b screen =
     (case array_push (screens b) screen of (n, xs) \<Rightarrow> (if truthy_number n then True else False, b\<lparr>screens := xs\<rparr>))"

definition getCurrent :: "Backstack \<Rightarrow> jsval" where
  "getCurrent b = array_get (screens b) (int (length (screens b)) - 1)"

text \<open>Sequences of stack operations, for the properties that quantify over them.\<close>

datatype stack_op = Push ref | Pop | PopForced

fun apply_op :: "Backstack \<Rightarrow> stack_op \<Rightarrow> Backstack" where
  "apply_op b (Push r) = snd (push b r)"
| "apply_op b Pop = snd (pop b)"
| "apply_op b PopForced = snd (popForced b)"

fun apply_ops :: "Backstack \<Rightarrow> stack_op list \<Rightarrow> Backstack" where
  "apply_ops b [] = b"
| "apply_ops b (x # xs) = apply_ops (apply_op b x) xs"

fun uses_popForced :: "stack_op list \<Rightarrow> bool" where
  "uses_popForced [] = False"
| "uses_popForced (x # xs) = (x = PopForced \<or> uses_popForced xs)"

section \<open>Screens, the document and the state of the page\<close>

text \<open>
  A Screen object. \<open>htmlCode\<close> is \<open>null\<close> until a fetch has completed. The five search
  terms are set by the constructor and never assigned again, so they are constants here.
  The Screen of \<^verbatim>\<open>part_001\<close> has no \<open>forceRefreshOnLoad\<close> field; its functions
  neither read nor write the field of this record.
\<close>

record Screen =
  url :: string
  htmlCode :: "string option"
  forceRefreshOnLoad :: bool

definition goTerm :: string where "goTerm = ''.bs-override-go''"
definition backTerm :: string where "backTerm = ''.bs-override-back''"
definition goAndClearTerm :: string where "goAndClearTerm = ''.bs-override-clear''"
definition submitTerm :: string where "submitTerm = ''.bs-override-submit''"
definition refreshTerm :: string where "refreshTerm = ''.bs-override-refresh''"

definition Screen_new :: "string \<Rightarrow> Screen" where
  "Screen_new u = \<lparr>url = u, htmlCode = None, forceRefreshOnLoad = False\<rparr>"

record Tab =
  backstack :: Backstack
  viewId :: string

definition isHeaderBackVisible :: "Tab \<Rightarrow> bool" where
  "isHeaderBackVisible tab = (length (screens (backstack tab)) > 1)"

text \<open>
  The closures that the library binds to elements, as data: each override closes over the
  Screen that installed it (\<open>self\<close>) and over the callback it was given, which in turn
  closes over the Tab and the Tab's \<open>onGetHTML\<close> of the TabBar. The two handlers of a tab
  button close over the Tab.
\<close>

datatype handler =
    GoOverride ref tabref
  | BackOverride ref tabref
  | GoAndClearOverride ref tabref
  | SubmitOverride ref tabref
  | RefreshOverride ref tabref
  | TabSelect tabref
  | TabOnClick tabref

text \<open>
  An element of the document, with what the library reads from it (\<open>href\<close>, a form's
  \<open>action\<close>, \<open>method\<close> and fields), what it writes (classes, visibility) and the
  handlers jQuery holds for it.
\<close>

record element =
  el_id :: string
  el_classes :: "string list"
  el_inViewport :: bool
  el_visibility :: string
  el_href :: string
  el_action :: string
  el_method :: string
  el_fields :: "(string \<times> string) list"
  el_click :: "handler list"
  el_submit :: "handler list"

type_synonym formdata = "(string \<times> string) list option"

text \<open>
  What the success callback of an asynchronous request closes over:
  the callback of \<open>Screen.initialise\<close> and \<open>initialiseIgnoreCache\<close> (Screen,
  back-visibility, Tab), the callbacks of \<open>Tab.submitForm\<close>, and the callbacks that
  \<open>Screen.initialise\<close> of \<^verbatim>\<open>part_001\<close> hands to \<open>Screen.getHtml\<close>.
\<close>

datatype continuation =
    InitialiseDone ref bool tabref
  | SubmitFormDone tabref
  | GetHtmlDone ref bool tabref

text \<open>
  An asynchronous request in flight. jQuery calls the callbacks of a request with \<open>this\<close>
  bound to the settings object of the request; \<open>req_forceRefreshOnLoad\<close> is the property of
  that name on the settings object (\<open>None\<close>: absent).
\<close>

record request =
  req_url :: string
  req_type :: string
  req_data :: formdata
  req_forceRefreshOnLoad :: "bool option"
  req_cont :: continuation

datatype event =
    ConsoleLog string
  | ConsoleError string
  | AjaxSent string string formdata
  | HtmlCall "string option"
  | ViewUpdated string "string option"
  | ErrorReported string string
  | Unbound string string

text \<open>
  The state: the object stores, the TabBar's fields, the document, the viewport (the
  element selected by \<open>appViewId\<close>), the requests in flight and the trace of what the
  library did to the outside. \<open>render\<close> says which elements a piece of markup creates
  when it is written into the viewport; the markup is the embedder's, so this is a
  parameter. \<open>transitionSpeed\<close> is passed around and never used; it is left out.
\<close>

record world =
  screenObj :: "ref \<Rightarrow> Screen"
  nextRef :: ref
  tabObj :: "tabref \<Rightarrow> Tab"
  tabs :: "tabref list"
  selectedTabViewId :: string
  document :: "element list"
  viewport :: "string option"
  viewportVisibility :: string
  pending :: "request list"
  trace :: "event list"
  render :: "string \<Rightarrow> element list"

datatype error = TypeError | ReferenceError

text \<open>A call returns, or throws having changed the state so far.\<close>

datatype outcome = Returns world | Throws error world

fun and_then :: "outcome \<Rightarrow> (world \<Rightarrow> outcome) \<Rightarrow> outcome" where
  "and_then (Returns w) f = f w"
| "and_then (Throws x w) f = Throws x w"

fun state_of :: "outcome \<Rightarrow> world" where
  "state_of (Returns w) = w"
| "state_of (Throws x w) = w"

fun returns :: "outcome \<Rightarrow> bool" where
  "returns (Returns w) = True"
| "returns (Throws x w) = False"

definition emit :: "event \<Rightarrow> world \<Rightarrow> world" where
  "emit ev w = w\<lparr>trace := trace w @ [ev]\<rparr>"

subsection \<open>Strings\<close>

definition quote :: string where
  "quote = [CHR 0x27]"

definition digit :: "nat \<Rightarrow> char" where
  "digit d = char_of (48 + d)"

fun decimal :: "nat \<Rightarrow> string" where
  "decimal n = (if n < 10 then [digit n] else decimal (n div 10) @ [digit (n mod 10)])"

text \<open>\<open>toUpperCase\<close> on the ASCII letters, which is what a form's method holds.\<close>

definition upper_char :: "char \<Rightarrow> char" where
  "upper_char c =
     (if 97 \<le> (of_char c :: nat) \<and> (of_char c :: nat) \<le> 122 then char_of ((of_char c :: nat) - 32) else c)"

definition toUpperCase :: "string \<Rightarrow> string" where
  "toUpperCase s = map upper_char s"

text \<open>The message that \<open>Tab.onBack\<close> logs when nothing was popped.\<close>

definition onBack_diagnostic :: "nat \<Rightarrow> string" where
  "onBack_diagnostic n =
     ''onBack(): did not pop Screen from backstack, though this could be because it'' @ quote
     @ ''s the last in stack. backstack length = '' @ decimal n"

subsection \<open>jQuery\<close>

text \<open>
  The selectors the library uses: \<open>.class\<close> and \<open>#id\<close>, for class names and ids that are
  plain names. An id that holds selector syntax (a dot, a space, or nothing at all) is
  compared here as text, where jQuery would parse it.
\<close>

definition matches :: "string \<Rightarrow> element \<Rightarrow> bool" where
  "matches sel e =
     (case sel of
        [] \<Rightarrow> False
      | c # name \<Rightarrow>
          if c = CHR ''.'' then List.member (el_classes e) name
          else if c = CHR ''#'' then el_id e = name
          else False)"

definition jq_each :: "string \<Rightarrow> (element \<Rightarrow> element) \<Rightarrow> world \<Rightarrow> world" where
  "jq_each sel f w = w\<lparr>document := map (\<lambda>e. if matches sel e then f e else e) (document w)\<rparr>"

definition jq_click :: "string \<Rightarrow> handler \<Rightarrow> world \<Rightarrow> world" where
  "jq_click sel h w = jq_each sel (\<lambda>e. e\<lparr>el_click := el_click e @ [h]\<rparr>) w"

definition jq_submit :: "string \<Rightarrow> handler \<Rightarrow> world \<Rightarrow> world" where
  "jq_submit sel h w = jq_each sel (\<lambda>e. e\<lparr>el_submit := el_submit e @ [h]\<rparr>) w"

definition jq_off :: "string \<Rightarrow> string \<Rightarrow> world \<Rightarrow> world" where
  "jq_off sel evt w =
     emit (Unbound sel evt)
       (jq_each sel
          (\<lambda>e. if evt = ''click'' then e\<lparr>el_click := []\<rparr>
               else if evt = ''submit'' then e\<lparr>el_submit := []\<rparr>
               else e) w)"

definition jq_css_visibility :: "string \<Rightarrow> string \<Rightarrow> world \<Rightarrow> world" where
  "jq_css_visibility sel v w = jq_each sel (\<lambda>e. e\<lparr>el_visibility := v\<rparr>) w"

definition jq_addClass :: "string \<Rightarrow> string \<Rightarrow> world \<Rightarrow> world" where
  "jq_addClass sel c w =
     jq_each sel (\<lambda>e. if List.member (el_classes e) c then e else e\<lparr>el_classes := el_classes e @ [c]\<rparr>) w"

definition jq_removeClass :: "string \<Rightarrow> string \<Rightarrow> world \<Rightarrow> world" where
  "jq_removeClass sel c w =
     jq_each sel (\<lambda>e. e\<lparr>el_classes := filter (\<lambda>x. x \<noteq> c) (el_classes e)\<rparr>) w"

text \<open>
  \<open>$(appViewId).html(x)\<close>: with a string, the viewport's elements are discarded (with
  their handlers) and the markup's elements take their place; with \<open>undefined\<close>, jQuery
  reads instead of writing and nothing changes.
\<close>

definition jq_html :: "string option \<Rightarrow> world \<Rightarrow> world" where
  "jq_html x w =
     emit (HtmlCall x)
       (case x of
          None \<Rightarrow> w
        | Some code \<Rightarrow>
            w\<lparr>viewport := Some code,
              document := filter (\<lambda>e. \<not> el_inViewport e) (document w) @ render w code\<rparr>)"

definition jq_viewport_visibility :: "string \<Rightarrow> world \<Rightarrow> world" where
  "jq_viewport_visibility v w = w\<lparr>viewportVisibility := v\<rparr>"

definition serializeArray :: "string \<Rightarrow> world \<Rightarrow> (string \<times> string) list" where
  "serializeArray sel w = concat (map el_fields (filter (matches sel) (document w)))"

definition jq_ajax :: "string \<Rightarrow> string \<Rightarrow> formdata \<Rightarrow> continuation \<Rightarrow> world \<Rightarrow> world" where
  "jq_ajax u ty d k w =
     emit (AjaxSent u ty d)
       (w\<lparr>pending := pending w @
            [\<lparr>req_url = u, req_type = ty, req_data = d, req_forceRefreshOnLoad = None, req_cont = k\<rparr>]\<rparr>)"

definition jq_get :: "string \<Rightarrow> continuation \<Rightarrow> world \<Rightarrow> world" where
  "jq_get u k w = jq_ajax u ''GET'' None k w"

subsection \<open>Screen: overrides\<close>

definition setBackVisibilityOverride :: "bool \<Rightarrow> world \<Rightarrow> world" where
  "setBackVisibilityOverride isVisible w =
     (if isVisible then jq_css_visibility backTerm ''visible'' w
      else jq_css_visibility backTerm ''hidden'' w)"

definition setGoOverride :: "ref \<Rightarrow> tabref \<Rightarrow> world \<Rightarrow> world" where
  "setGoOverride self cb w = jq_click goTerm (GoOverride self cb) w"

definition setBackOverride :: "ref \<Rightarrow> tabref \<Rightarrow> world \<Rightarrow> world" where
  "setBackOverride self cb w = jq_click backTerm (BackOverride self cb) w"

definition setGoAndClearOverride :: "ref \<Rightarrow> tabref \<Rightarrow> world \<Rightarrow> world" where
  "setGoAndClearOverride self cb w = jq_click goAndClearTerm (GoAndClearOverride self cb) w"

definition setSubmitOverride :: "ref \<Rightarrow> tabref \<Rightarrow> world \<Rightarrow> world" where
  "setSubmitOverride self cb w = jq_submit submitTerm (SubmitOverride self cb) w"

definition setRefreshOverride :: "ref \<Rightarrow> tabref \<Rightarrow> world \<Rightarrow> world" where
  "setRefreshOverride self cb w = jq_click refreshTerm (RefreshOverride self cb) w"

definition setupOverrides :: "ref \<Rightarrow> bool \<Rightarrow> tabref \<Rightarrow> world \<Rightarrow> world" where
  "setupOverrides self isBackVisible cb w =
     setRefreshOverride self cb
       (setSubmitOverride self cb
          (setGoAndClearOverride self cb
             (setBackOverride self cb
                (setGoOverride self cb
                   (setBackVisibilityOverride isBackVisible w)))))"

definition clearGoOverride :: "world \<Rightarrow> world" where
  "clearGoOverride w = jq_off goTerm ''click'' w"

definition clearBackOverride :: "world \<Rightarrow> world" where
  "clearBackOverride w = jq_off backTerm ''click'' w"

definition clearGoAndClearOverride :: "world \<Rightarrow> world" where
  "clearGoAndClearOverride w = jq_off goAndClearTerm ''click'' w"

definition clearSubmitOverride :: "world \<Rightarrow> world" where
  "clearSubmitOverride w = jq_off submitTerm ''submit'' w"

definition clearRefreshOverride :: "world \<Rightarrow> world" where
  "clearRefreshOverride w = jq_off refreshTerm ''click'' w"

definition Screen_destroy :: "world \<Rightarrow> world" where
  "Screen_destroy w =
     clearRefreshOverride
       (clearSubmitOverride
          (clearGoAndClearOverride
             (clearBackOverride
                (clearGoOverride w))))"

subsection \<open>Object stores\<close>

definition new_Screen :: "string \<Rightarrow> world \<Rightarrow> ref \<times> world" where
  "new_Screen u w =
     (nextRef w, w\<lparr>screenObj := (screenObj w)(nextRef w := Screen_new u), nextRef := Suc (nextRef w)\<rparr>)"

definition set_htmlCode :: "ref \<Rightarrow> string \<Rightarrow> world \<Rightarrow> world" where
  "set_htmlCode self code w =
     w\<lparr>screenObj := (screenObj w)(self := (screenObj w self)\<lparr>htmlCode := Some code\<rparr>)\<rparr>"

definition set_forceRefreshOnLoad :: "ref \<Rightarrow> bool \<Rightarrow> world \<Rightarrow> world" where
  "set_forceRefreshOnLoad self v w =
     w\<lparr>screenObj := (screenObj w)(self := (screenObj w self)\<lparr>forceRefreshOnLoad := v\<rparr>)\<rparr>"

definition set_backstack :: "tabref \<Rightarrow> Backstack \<Rightarrow> world \<Rightarrow> world" where
  "set_backstack tab b w = w\<lparr>tabObj := (tabObj w)(tab := (tabObj w tab)\<lparr>backstack := b\<rparr>)\<rparr>"

section \<open>The library of \<^verbatim>\<open>public/lib/backstackjs/js/backstack.js\<close>\<close>

subsection \<open>TabBar: what it hands to its Tabs\<close>

definition animateIn :: "world \<Rightarrow> world" where
  "animateIn w = jq_viewport_visibility ''visible'' (emit (ConsoleLog ''animateIn(): starting'') w)"

definition animateOut :: "(world \<Rightarrow> outcome) \<Rightarrow> world \<Rightarrow> outcome" where
  "animateOut onComplete w =
     onComplete (jq_viewport_visibility ''hidden'' (emit (ConsoleLog ''animateOut(): starting'') w))"

text \<open>The second closure that \<open>setTabsClickListeners\<close> passes to \<open>tab.onClick\<close>.\<close>

definition onGetHTML :: "tabref \<Rightarrow> string option \<Rightarrow> string option \<Rightarrow> world \<Rightarrow> world" where
  "onGetHTML tab code u w =
     (let w1 = jq_html code w;
          w2 = emit (ViewUpdated (viewId (tabObj w1 tab)) u) w1
      in animateIn w2)"

definition findTab :: "string \<Rightarrow> world \<Rightarrow> tabref option \<times> world" where
  "findTab tabViewId w =
     (case find (\<lambda>tab. viewId (tabObj w tab) = tabViewId) (tabs w) of
        Some tab \<Rightarrow> (Some tab, w)
      | None \<Rightarrow>
          (None, emit (ConsoleError (''backstack.js findTab(): could not find tab with id '' @ quote
                                      @ tabViewId @ quote)) w))"

subsection \<open>Screen: loading\<close>

definition Screen_initialiseIgnoreCache :: "ref \<Rightarrow> bool \<Rightarrow> tabref \<Rightarrow> world \<Rightarrow> world" where
  "Screen_initialiseIgnoreCache self isBackVisible cb w =
     jq_get (url (screenObj w self)) (InitialiseDone self isBackVisible cb) w"

definition Screen_initialise :: "ref \<Rightarrow> bool \<Rightarrow> tabref \<Rightarrow> world \<Rightarrow> world" where
  "Screen_initialise self isBackVisible cb w =
     (if htmlCode (screenObj w self) = None \<or> forceRefreshOnLoad (screenObj w self)
      then jq_get (url (screenObj w self)) (InitialiseDone self isBackVisible cb) w
      else setupOverrides self isBackVisible cb
             (onGetHTML cb (htmlCode (screenObj w self)) (Some (url (screenObj w self))) w))"

text \<open>
  The callback that \<open>initialise\<close> and \<open>initialiseIgnoreCache\<close> give to \<open>$.get\<close>. It is a
  \<open>function\<close>, so its \<open>this\<close> is the settings object of the request, here \<open>this\<close>;
  the Screen is \<open>self\<close>.
\<close>

definition initialise_callback ::
  "request \<Rightarrow> ref \<Rightarrow> bool \<Rightarrow> tabref \<Rightarrow> string \<Rightarrow> world \<Rightarrow> request \<times> world" where
  "initialise_callback this self isBackVisible cb code w =
     (let this1 = this\<lparr>req_forceRefreshOnLoad := Some False\<rparr>;
          w1 = set_htmlCode self code w;
          w2 = onGetHTML cb (Some code) (Some (url (screenObj w1 self))) w1;
          w3 = setupOverrides self isBackVisible cb w2
      in (this1, w3))"

subsection \<open>Tab\<close>

definition Tab_getHtml :: "tabref \<Rightarrow> world \<Rightarrow> outcome" where
  "Tab_getHtml tab w =
     (case getCurrent (backstack (tabObj w tab)) of
        Undefined \<Rightarrow> Throws TypeError w
      | Obj s \<Rightarrow> Returns (Screen_initialise s (isHeaderBackVisible (tabObj w tab)) tab w))"

definition Tab_submitForm :: "tabref \<Rightarrow> string \<Rightarrow> string \<Rightarrow> formdata \<Rightarrow> world \<Rightarrow> world" where
  "Tab_submitForm tab action method d w = jq_ajax action (toUpperCase method) d (SubmitFormDone tab) w"

definition Tab_onGo :: "tabref \<Rightarrow> string \<Rightarrow> world \<Rightarrow> outcome" where
  "Tab_onGo tab u w =
     (case new_Screen u w of (s, w1) \<Rightarrow>
      case push (backstack (tabObj w1 tab)) s of (ok, b) \<Rightarrow>
        if ok then Tab_getHtml tab (set_backstack tab b w1)
        else Returns (emit (ConsoleError (''onGo(): could not push screen with url '' @ quote @ u
                                           @ quote @ '' to the backstack.''))
                        (set_backstack tab b w1)))"

definition Tab_onBack :: "tabref \<Rightarrow> world \<Rightarrow> outcome" where
  "Tab_onBack tab w =
     (case pop (backstack (tabObj w tab)) of (ok, b) \<Rightarrow>
        if ok then Tab_getHtml tab (set_backstack tab b w)
        else Returns
               (emit (ConsoleLog (onBack_diagnostic (length (screens b)))) (set_backstack tab b w)))"

definition Tab_onGoAndClear :: "tabref \<Rightarrow> string \<Rightarrow> world \<Rightarrow> outcome" where
  "Tab_onGoAndClear tab u w =
     (case popForced (backstack (tabObj w tab)) of (popped, b1) \<Rightarrow>
      case new_Screen u (set_backstack tab b1 w) of (s, w1) \<Rightarrow>
      case push (backstack (tabObj w1 tab)) s of (pushed, b2) \<Rightarrow>
        Tab_getHtml tab (set_backstack tab b2 w1))"

definition Tab_onSubmit :: "tabref \<Rightarrow> string \<Rightarrow> string \<Rightarrow> formdata \<Rightarrow> world \<Rightarrow> outcome" where
  "Tab_onSubmit tab action method d w = Returns (Tab_submitForm tab action method d w)"

definition Tab_onRefresh :: "tabref \<Rightarrow> world \<Rightarrow> outcome" where
  "Tab_onRefresh tab w = Tab_getHtml tab w"

definition Tab_destroy :: "tabref \<Rightarrow> world \<Rightarrow> outcome" where
  "Tab_destroy tab w =
     (case getCurrent (backstack (tabObj w tab)) of
        Undefined \<Rightarrow> Throws TypeError w
      | Obj s \<Rightarrow> Returns (Screen_destroy w))"

subsection \<open>TabBar: tab buttons\<close>

text \<open>The first closure that \<open>setTabsClickListeners\<close> passes to \<open>tab.onClick\<close>.\<close>

definition preCreate :: "tabref \<Rightarrow> world \<Rightarrow> outcome" where
  "preCreate tab w =
     animateOut
       (\<lambda>w1. case findTab (selectedTabViewId w1) w1 of
                (None, w2) \<Rightarrow> Throws TypeError w2
              | (Some sel, w2) \<Rightarrow>
                  and_then (Tab_destroy sel w2)
                    (\<lambda>w3. Returns (w3\<lparr>selectedTabViewId := viewId (tabObj w3 tab)\<rparr>)))
       w"

definition tabSelectedClassName :: string where
  "tabSelectedClassName = ''btn-tab-selected''"

definition addSelectedViewClass :: "string \<Rightarrow> world \<Rightarrow> world" where
  "addSelectedViewClass view w = jq_addClass view tabSelectedClassName w"

definition removeSelectedViewClass :: "string \<Rightarrow> world \<Rightarrow> world" where
  "removeSelectedViewClass view w = jq_removeClass view tabSelectedClassName w"

definition Tab_onClick :: "tabref \<Rightarrow> world \<Rightarrow> world" where
  "Tab_onClick tab w = jq_click (''#'' @ viewId (tabObj w tab)) (TabOnClick tab) w"

definition setTabsClickListeners :: "world \<Rightarrow> world" where
  "setTabsClickListeners w =
     fold (\<lambda>tab w1. Tab_onClick tab (jq_click (''#'' @ viewId (tabObj w1 tab)) (TabSelect tab) w1))
       (tabs w) w"

subsection \<open>Events\<close>

text \<open>
  What each bound closure does when jQuery calls it for an event on element \<open>e\<close>
  (\<open>this\<close> for a click, \<open>e.target\<close> for a submit).
\<close>

fun fire :: "handler \<Rightarrow> element \<Rightarrow> world \<Rightarrow> outcome" where
  "fire (GoOverride self cb) e w =
     Tab_onGo cb (el_href e) (Screen_destroy (emit (ConsoleLog ''setGoOverride(): onClick'') w))"
| "fire (BackOverride self cb) e w = Tab_onBack cb (Screen_destroy w)"
| "fire (GoAndClearOverride self cb) e w = Tab_onGoAndClear cb (el_href e) (Screen_destroy w)"
| "fire (SubmitOverride self cb) e w =
     (let w1 = set_forceRefreshOnLoad self True w
      in Tab_onSubmit cb (el_action e) (el_method e) (Some (serializeArray submitTerm w1)) w1)"
| "fire (RefreshOverride self cb) e w =
     Tab_onRefresh cb
       (Screen_destroy
          (set_forceRefreshOnLoad self True
             (emit (ConsoleLog ''setRefreshOverride(): onClick'') w)))"
| "fire (TabSelect tab) e w =
     Returns (addSelectedViewClass (''#'' @ viewId (tabObj w tab)) (removeSelectedViewClass ''.btn-tab'' w))"
| "fire (TabOnClick tab) e w = and_then (preCreate tab w) (Tab_getHtml tab)"

text \<open>jQuery calls the handlers an element had when the event arrived, in the order bound.\<close>

fun run_handlers :: "handler list \<Rightarrow> element \<Rightarrow> world \<Rightarrow> outcome" where
  "run_handlers [] e w = Returns w"
| "run_handlers (h # hs) e w = and_then (fire h e w) (run_handlers hs e)"

subsection \<open>Responses\<close>

text \<open>The \<open>success\<close> callback of a request, called with \<open>this\<close> the request's settings.\<close>

definition success_callback :: "request \<Rightarrow> string \<Rightarrow> world \<Rightarrow> request \<times> world" where
  "success_callback this body w =
     (case req_cont this of
        InitialiseDone self isBackVisible cb \<Rightarrow> initialise_callback this self isBackVisible cb body w
      | SubmitFormDone tab \<Rightarrow> (this, onGetHTML tab None None w)
      | GetHtmlDone self isBackVisible cb \<Rightarrow> (this, w))"

text \<open>
  The \<open>error\<close> callback: \<open>$.get\<close> is given none; \<open>submitForm\<close> calls the \<open>onFailure\<close> of
  \<open>setSubmitOverride\<close>.
\<close>

definition error_callback :: "request \<Rightarrow> nat \<Rightarrow> string \<Rightarrow> world \<Rightarrow> world" where
  "error_callback this status statusText w =
     (case req_cont this of
        InitialiseDone self isBackVisible cb \<Rightarrow> w
      | SubmitFormDone tab \<Rightarrow>
          emit (ConsoleError (''setSubmitOverride(): onFailure: '' @ decimal status @ '' '' @ statusText)) w
      | GetHtmlDone self isBackVisible cb \<Rightarrow> w)"

definition remove_nth :: "nat \<Rightarrow> 'a list \<Rightarrow> 'a list" where
  "remove_nth i xs = take i xs @ drop (Suc i) xs"

definition succeed :: "nat \<Rightarrow> string \<Rightarrow> world \<Rightarrow> world" where
  "succeed i body w =
     (if i < length (pending w)
      then snd (success_callback (pending w ! i) body (w\<lparr>pending := remove_nth i (pending w)\<rparr>))
      else w)"

definition fail :: "nat \<Rightarrow> nat \<Rightarrow> string \<Rightarrow> world \<Rightarrow> world" where
  "fail i status statusText w =
     (if i < length (pending w)
      then error_callback (pending w ! i) status statusText (w\<lparr>pending := remove_nth i (pending w)\<rparr>)
      else w)"

section \<open>The library of \<^verbatim>\<open>unnamed/part_001\<close>\<close>

subsection \<open>TabBar: what it hands to its Tabs\<close>

definition animateIn_p1 :: "world \<Rightarrow> world" where
  "animateIn_p1 w = jq_viewport_visibility ''visible'' w"

definition animateOut_p1 :: "(world \<Rightarrow> outcome) \<Rightarrow> world \<Rightarrow> outcome" where
  "animateOut_p1 onComplete w = onComplete (jq_viewport_visibility ''hidden'' w)"

text \<open>The second and third closures that \<open>setTabsClickListeners\<close> passes to \<open>tab.onClick\<close>.\<close>

definition onSuccess_p1 :: "tabref \<Rightarrow> string option \<Rightarrow> string \<Rightarrow> world \<Rightarrow> world" where
  "onSuccess_p1 tab code u w =
     (let w1 = jq_html code w;
          w2 = emit (ViewUpdated (viewId (tabObj w1 tab)) (Some u)) w1
      in animateIn_p1 w2)"

definition onError_p1 :: "tabref \<Rightarrow> string \<Rightarrow> world \<Rightarrow> world" where
  "onError_p1 tab u w = emit (ErrorReported (viewId (tabObj w tab)) u) w"

subsection \<open>Screen: loading\<close>

definition Screen_getHtml_p1 :: "string \<Rightarrow> string \<Rightarrow> formdata \<Rightarrow> continuation \<Rightarrow> world \<Rightarrow> world" where
  "Screen_getHtml_p1 action method d k w = jq_ajax action (toUpperCase method) d k w"

definition Screen_initialise_p1 ::
  "ref \<Rightarrow> string \<Rightarrow> formdata \<Rightarrow> bool \<Rightarrow> bool \<Rightarrow> tabref \<Rightarrow> world \<Rightarrow> world" where
  "Screen_initialise_p1 self method d isBackVisible forceRefresh cb w =
     (if htmlCode (screenObj w self) = None \<or> forceRefresh
      then Screen_getHtml_p1 (url (screenObj w self)) method d (GetHtmlDone self isBackVisible cb) w
      else setupOverrides self isBackVisible cb
             (onSuccess_p1 cb (htmlCode (screenObj w self)) (url (screenObj w self)) w))"

text \<open>The two callbacks that \<open>initialise\<close> gives to \<open>getHtml\<close>; \<open>u\<close> is the request's url.\<close>

definition initialise_onSuccess_p1 ::
  "ref \<Rightarrow> bool \<Rightarrow> tabref \<Rightarrow> string \<Rightarrow> string \<Rightarrow> world \<Rightarrow> world" where
  "initialise_onSuccess_p1 self isBackVisible cb code u w =
     (let w1 = set_htmlCode self code w;
          w2 = onSuccess_p1 cb (Some code) u w1
      in setupOverrides self isBackVisible cb w2)"

definition initialise_onError_p1 :: "tabref \<Rightarrow> nat \<Rightarrow> string \<Rightarrow> string \<Rightarrow> world \<Rightarrow> world" where
  "initialise_onError_p1 cb status statusText u w =
     onError_p1 cb u
       (emit (ConsoleError (''Screen initialise(): onError: '' @ decimal status @ '' '' @ statusText)) w)"

subsection \<open>Tab\<close>

definition Tab_setCurrentScreenHTML_p1 ::
  "tabref \<Rightarrow> string \<Rightarrow> formdata \<Rightarrow> bool \<Rightarrow> world \<Rightarrow> outcome" where
  "Tab_setCurrentScreenHTML_p1 tab method d forceRefresh w =
     (case getCurrent (backstack (tabObj w tab)) of
        Undefined \<Rightarrow> Throws TypeError w
      | Obj s \<Rightarrow>
          Returns (Screen_initialise_p1 s method d (isHeaderBackVisible (tabObj w tab)) forceRefresh tab w))"

definition Tab_onGo_p1 :: "tabref \<Rightarrow> string \<Rightarrow> world \<Rightarrow> outcome" where
  "Tab_onGo_p1 tab u w =
     (case new_Screen u w of (s, w1) \<Rightarrow>
      case push (backstack (tabObj w1 tab)) s of (ok, b) \<Rightarrow>
        if ok then Tab_setCurrentScreenHTML_p1 tab ''GET'' None True (set_backstack tab b w1)
        else Returns (emit (ConsoleError (''onGo(): could not push screen with url '' @ quote @ u
                                           @ quote @ '' to the backstack.''))
                        (set_backstack tab b w1)))"

definition Tab_onBack_p1 :: "tabref \<Rightarrow> world \<Rightarrow> outcome" where
  "Tab_onBack_p1 tab w =
     (case pop (backstack (tabObj w tab)) of (ok, b) \<Rightarrow>
        if ok then Tab_setCurrentScreenHTML_p1 tab ''GET'' None False (set_backstack tab b w)
        else Returns
               (emit (ConsoleLog (onBack_diagnostic (length (screens b)))) (set_backstack tab b w)))"

definition Tab_onGoAndClear_p1 :: "tabref \<Rightarrow> string \<Rightarrow> world \<Rightarrow> outcome" where
  "Tab_onGoAndClear_p1 tab u w =
     (case popForced (backstack (tabObj w tab)) of (popped, b1) \<Rightarrow>
        Tab_onGo_p1 tab u (set_backstack tab b1 w))"

text \<open>
  The \<open>else\<close> branch of \<open>onSubmit\<close> reads a variable \<open>url\<close> that is declared nowhere:
  evaluating the argument of \<open>console.error\<close> throws a ReferenceError.
\<close>

definition Tab_onSubmit_p1 :: "tabref \<Rightarrow> string \<Rightarrow> string \<Rightarrow> formdata \<Rightarrow> world \<Rightarrow> outcome" where
  "Tab_onSubmit_p1 tab action method d w =
     (case new_Screen action w of (s, w1) \<Rightarrow>
      case push (backstack (tabObj w1 tab)) s of (ok, b) \<Rightarrow>
        if ok then Tab_setCurrentScreenHTML_p1 tab method d False (set_backstack tab b w1)
        else Throws ReferenceError (set_backstack tab b w1))"

definition Tab_onRefresh_p1 :: "tabref \<Rightarrow> world \<Rightarrow> outcome" where
  "Tab_onRefresh_p1 tab w = Tab_setCurrentScreenHTML_p1 tab ''GET'' None False w"

subsection \<open>TabBar: tab buttons\<close>

definition preCreate_p1 :: "tabref \<Rightarrow> world \<Rightarrow> outcome" where
  "preCreate_p1 tab w =
     animateOut_p1
       (\<lambda>w1. case findTab (selectedTabViewId w1) w1 of
                (None, w2) \<Rightarrow> Throws TypeError w2
              | (Some sel, w2) \<Rightarrow>
                  and_then (Tab_destroy sel w2)
                    (\<lambda>w3. Returns (w3\<lparr>selectedTabViewId := viewId (tabObj w3 tab)\<rparr>)))
       w"

subsection \<open>Events\<close>

fun fire_p1 :: "handler \<Rightarrow> element \<Rightarrow> world \<Rightarrow> outcome" where
  "fire_p1 (GoOverride self cb) e w = Tab_onGo_p1 cb (el_href e) (Screen_destroy w)"
| "fire_p1 (BackOverride self cb) e w = Tab_onBack_p1 cb (Screen_destroy w)"
| "fire_p1 (GoAndClearOverride self cb) e w = Tab_onGoAndClear_p1 cb (el_href e) (Screen_destroy w)"
| "fire_p1 (SubmitOverride self cb) e w =
     (let w1 = Screen_destroy w
      in Tab_onSubmit_p1 cb (el_action e) (el_method e) (Some (serializeArray submitTerm w1)) w1)"
| "fire_p1 (RefreshOverride self cb) e w = Tab_onRefresh_p1 cb (Screen_destroy w)"
| "fire_p1 (TabSelect tab) e w =
     Returns (addSelectedViewClass (''#'' @ viewId (tabObj w tab)) (removeSelectedViewClass ''.btn-tab'' w))"
| "fire_p1 (TabOnClick tab) e w =
     and_then (preCreate_p1 tab w) (Tab_setCurrentScreenHTML_p1 tab ''GET'' None True)"

fun run_handlers_p1 :: "handler list \<Rightarrow> element \<Rightarrow> world \<Rightarrow> outcome" where
  "run_handlers_p1 [] e w = Returns w"
| "run_handlers_p1 (h # hs) e w = and_then (fire_p1 h e w) (run_handlers_p1 hs e)"

subsection \<open>Responses\<close>

definition success_callback_p1 :: "request \<Rightarrow> string \<Rightarrow> world \<Rightarrow> world" where
  "success_callback_p1 this body w =
     (case req_cont this of
        GetHtmlDone self isBackVisible cb \<Rightarrow>
          initialise_onSuccess_p1 self isBackVisible cb body (req_url this) w
      | InitialiseDone self isBackVisible cb \<Rightarrow> w
      | SubmitFormDone tab \<Rightarrow> w)"

definition error_callback_p1 :: "request \<Rightarrow> nat \<Rightarrow> string \<Rightarrow> world \<Rightarrow> world" where
  "error_callback_p1 this status statusText w =
     (case req_cont this of
        GetHtmlDone self isBackVisible cb \<Rightarrow>
          initialise_onError_p1 cb status statusText (req_url this) w
      | InitialiseDone self isBackVisible cb \<Rightarrow> w
      | SubmitFormDone tab \<Rightarrow> w)"

definition succeed_p1 :: "nat \<Rightarrow> string \<Rightarrow> world \<Rightarrow> world" where
  "succeed_p1 i body w =
     (if i < length (pending w)
      then success_callback_p1 (pending w ! i) body (w\<lparr>pending := remove_nth i (pending w)\<rparr>)
      else w)"

definition fail_p1 :: "nat \<Rightarrow> nat \<Rightarrow> string \<Rightarrow> world \<Rightarrow> world" where
  "fail_p1 i status statusText w =
     (if i < length (pending w)
      then error_callback_p1 (pending w ! i) status statusText (w\<lparr>pending := remove_nth i (pending w)\<rparr>)
      else w)"

section \<open>Observations\<close>

text \<open>The url list of a Tab's Backstack, bottom first.\<close>

definition stack_urls :: "tabref \<Rightarrow> world \<Rightarrow> string list" where
  "stack_urls tab w = map (\<lambda>s. url (screenObj w s)) (screens (backstack (tabObj w tab)))"

text \<open>The events a call added to the trace.\<close>

definition added :: "world \<Rightarrow> world \<Rightarrow> event list" where
  "added w w1 = drop (length (trace w)) (trace w1)"

text \<open>No interceptor of the five is left on an element.\<close>

definition unbound :: "element \<Rightarrow> bool" where
  "unbound e =
     ((if matches goTerm e \<or> matches backTerm e \<or> matches goAndClearTerm e \<or> matches refreshTerm e
       then el_click e = [] else True)
      \<and> (if matches submitTerm e then el_submit e = [] else True))"

text \<open>What \<open>Screen.destroy\<close> does to one element: its five \<open>off\<close> calls in turn.\<close>

definition release :: "element \<Rightarrow> element" where
  "release e =
     (let e1 = (if matches goTerm e then e\<lparr>el_click := []\<rparr> else e);
          e2 = (if matches backTerm e1 then e1\<lparr>el_click := []\<rparr> else e1);
          e3 = (if matches goAndClearTerm e2 then e2\<lparr>el_click := []\<rparr> else e2);
          e4 = (if matches submitTerm e3 then e3\<lparr>el_submit := []\<rparr> else e3)
      in if matches refreshTerm e4 then e4\<lparr>el_click := []\<rparr> else e4)"

text \<open>What one run of \<open>Screen.destroy\<close> adds to the trace.\<close>

definition destroy_events :: "event list" where
  "destroy_events =
     [Unbound goTerm ''click'', Unbound backTerm ''click'', Unbound goAndClearTerm ''click'',
      Unbound submitTerm ''submit'', Unbound refreshTerm ''click'']"

text \<open>What the first handler of a tab button does: the closure of \<open>setTabsClickListeners\<close>.\<close>

definition tab_selected :: "tabref \<Rightarrow> world \<Rightarrow> world" where
  "tab_selected tab w =
     addSelectedViewClass (''#'' @ viewId (tabObj w tab)) (removeSelectedViewClass ''.btn-tab'' w)"

section \<open>A page to run the library on\<close>

text \<open>
  Two tabs, \<open>tab-one\<close> (selected, Backstack [Home]) and \<open>tab-two\<close> (Backstack [B]); a back
  button in the toolbar outside the viewport; inside the viewport a refresh link, a link
  to \<open>page2\<close> and a form that posts \<open>x = 1\<close> to \<open>save.endpoint\<close>.
\<close>

definition plain_element :: element where
  "plain_element =
     \<lparr>el_id = [], el_classes = [], el_inViewport = False, el_visibility = [], el_href = [],
      el_action = [], el_method = [], el_fields = [], el_click = [], el_submit = []\<rparr>"

definition tab_one_button :: element where
  "tab_one_button = plain_element\<lparr>el_id := ''tab-one'', el_classes := [''btn-tab'', ''btn-tab-selected'']\<rparr>"

definition tab_two_button :: element where
  "tab_two_button = plain_element\<lparr>el_id := ''tab-two'', el_classes := [''btn-tab'']\<rparr>"

definition back_button :: element where
  "back_button = plain_element\<lparr>el_classes := [''bs-override-back'']\<rparr>"

definition refresh_link :: element where
  "refresh_link = plain_element\<lparr>el_classes := [''bs-override-refresh''], el_inViewport := True\<rparr>"

definition go_link :: element where
  "go_link = plain_element\<lparr>el_classes := [''bs-override-go''], el_inViewport := True, el_href := ''page2''\<rparr>"

definition save_form :: element where
  "save_form =
     plain_element\<lparr>el_classes := [''bs-override-submit''], el_inViewport := True,
       el_action := ''save.endpoint'', el_method := ''post'', el_fields := [(''x'', ''1'')]\<rparr>"

definition no_tab :: Tab where
  "no_tab = \<lparr>backstack = \<lparr>screens = []\<rparr>, viewId = []\<rparr>"

definition page :: world where
  "page =
     \<lparr>screenObj = (\<lambda>r. Screen_new [])(0 := Screen_new ''Home'', 1 := Screen_new ''B''),
      nextRef = 2,
      tabObj = (\<lambda>t. no_tab)
        (0 := \<lparr>backstack = \<lparr>screens = [0]\<rparr>, viewId = ''tab-one''\<rparr>,
         1 := \<lparr>backstack = \<lparr>screens = [1]\<rparr>, viewId = ''tab-two''\<rparr>),
      tabs = [0, 1],
      selectedTabViewId = ''tab-one'',
      document = [tab_one_button, tab_two_button, back_button, refresh_link, go_link, save_form],
      viewport = None,
      viewportVisibility = ''visible'',
      pending = [],
      trace = [],
      render = (\<lambda>code. [])\<rparr>"

text \<open>The same page once Home has been loaded: its markup is cached and its overrides are bound.\<close>

definition home_loaded :: world where
  "home_loaded = (setupOverrides 0 False 0 (set_htmlCode 0 ''<home>'' page))\<lparr>viewport := Some ''<home>''\<rparr>"

text \<open>
  Home again, after a form was submitted on it in \<^verbatim>\<open>backstack.js\<close>: its markup is cached
  and \<open>forceRefreshOnLoad\<close> is set.
\<close>

definition home_stale :: world where
  "home_stale = set_forceRefreshOnLoad 0 True home_loaded"

section \<open>Properties of the Backstack\<close>

lemma pop_eq:
  "pop b = (length (screens b) > 1,
            if length (screens b) > 1 then b\<lparr>screens := butlast (screens b)\<rparr> else b)"
  by (auto simp: pop_def array_pop_def)

lemma popForced_eq:
  "popForced b = (screens b \<noteq> [],
                  if screens b \<noteq> [] then b\<lparr>screens := butlast (screens b)\<rparr> else b)"
  by (cases "screens b") (auto simp: popForced_def array_pop_def)

lemma push_eq: "push b r = (True, b\<lparr>screens := screens b @ [r]\<rparr>)"
  by (simp add: push_def array_push_def truthy_number_def)

lemma getCurrent_nonempty: "screens b \<noteq> [] \<Longrightarrow> getCurrent b = Obj (last (screens b))"
  by (cases "screens b" rule: rev_cases) (auto simp: getCurrent_def array_get_def)

lemma getCurrent_empty: "screens b = [] \<Longrightarrow> getCurrent b = Undefined"
  by (simp add: getCurrent_def array_get_def)

lemma apply_op_nonempty:
  "screens b \<noteq> [] \<Longrightarrow> x \<noteq> PopForced \<Longrightarrow> screens (apply_op b x) \<noteq> []"
proof (cases x)
  case (Push r)
  then show ?thesis by (simp add: push_eq)
next
  case Pop
  assume ne: "screens b \<noteq> []"
  show ?thesis
  proof (cases "length (screens b) > 1")
    case True
    then have "butlast (screens b) \<noteq> []" by (cases "screens b") auto
    with True Pop show ?thesis by (simp add: pop_eq)
  next
    case False
    with ne Pop show ?thesis by (simp add: pop_eq)
  qed
next
  case PopForced
  assume "x \<noteq> PopForced"
  with PopForced show ?thesis by simp
qed

lemma apply_ops_nonempty:
  "screens b \<noteq> [] \<Longrightarrow> \<not> uses_popForced ops \<Longrightarrow> screens (apply_ops b ops) \<noteq> []"
proof (induction ops arbitrary: b)
  case Nil
  then show ?case by simp
next
  case (Cons x xs)
  from Cons.prems have "x \<noteq> PopForced" and rest: "\<not> uses_popForced xs" by auto
  with Cons.prems have "screens (apply_op b x) \<noteq> []" by (simp add: apply_op_nonempty)
  with rest show ?case by (simp add: Cons.IH)
qed

section \<open>Properties of the Tab transitions\<close>

lemmas world_ops =
  emit_def jq_each_def jq_click_def jq_submit_def jq_off_def jq_css_visibility_def
  jq_addClass_def jq_removeClass_def jq_html_def jq_viewport_visibility_def jq_ajax_def jq_get_def
  new_Screen_def set_htmlCode_def set_forceRefreshOnLoad_def set_backstack_def

lemma getCurrent_snoc: "getCurrent (b\<lparr>screens := xs @ [r]\<rparr>) = Obj r"
  by (simp add: getCurrent_def array_get_def)

lemma Tab_onGo_eq:
  "Tab_onGo tab u w =
     Returns
       (jq_get u (InitialiseDone (nextRef w) (screens (backstack (tabObj w tab)) \<noteq> []) tab)
          (set_backstack tab
             ((backstack (tabObj w tab))\<lparr>screens := screens (backstack (tabObj w tab)) @ [nextRef w]\<rparr>)
             (snd (new_Screen u w))))"
  by (simp add: Tab_onGo_def push_eq Tab_getHtml_def getCurrent_snoc Screen_initialise_def
      isHeaderBackVisible_def new_Screen_def set_backstack_def Screen_new_def)

lemma Tab_onGo_p1_eq:
  "Tab_onGo_p1 tab u w =
     Returns
       (jq_get u (GetHtmlDone (nextRef w) (screens (backstack (tabObj w tab)) \<noteq> []) tab)
          (set_backstack tab
             ((backstack (tabObj w tab))\<lparr>screens := screens (backstack (tabObj w tab)) @ [nextRef w]\<rparr>)
             (snd (new_Screen u w))))"
  by (simp add: Tab_onGo_p1_def push_eq Tab_setCurrentScreenHTML_p1_def getCurrent_snoc
      Screen_initialise_p1_def Screen_getHtml_p1_def isHeaderBackVisible_def new_Screen_def
      set_backstack_def Screen_new_def jq_get_def toUpperCase_def upper_char_def)

lemma Tab_onSubmit_p1_eq:
  "Tab_onSubmit_p1 tab action method d w =
     Returns
       (jq_ajax action (toUpperCase method) d
          (GetHtmlDone (nextRef w) (screens (backstack (tabObj w tab)) \<noteq> []) tab)
          (set_backstack tab
             ((backstack (tabObj w tab))\<lparr>screens := screens (backstack (tabObj w tab)) @ [nextRef w]\<rparr>)
             (snd (new_Screen action w))))"
  by (simp add: Tab_onSubmit_p1_def push_eq Tab_setCurrentScreenHTML_p1_def getCurrent_snoc
      Screen_initialise_p1_def Screen_getHtml_p1_def isHeaderBackVisible_def new_Screen_def
      set_backstack_def Screen_new_def)

section \<open>Claims about the Backstack\<close>

text \<open>
  C1. \<open>pop\<close> removes the top element only when more than one element remains, and returns
  true exactly when it removed one. Hence no sequence of \<open>push\<close> and \<open>pop\<close> (that is, without
  \<open>popForced\<close>) empties a stack that started with at least one element; and after any
  sequence of the three operations, \<open>getCurrent\<close> yields the top Screen whenever the stack is
  not empty.
\<close>

theorem pop_leaves_one_screen:
  "pop b = (length (screens b) > 1,
            if length (screens b) > 1 then b\<lparr>screens := butlast (screens b)\<rparr> else b)
   \<and> fst (pop b) = (screens (snd (pop b)) \<noteq> screens b)
   \<and> (screens b \<noteq> [] \<and> \<not> uses_popForced ops \<longrightarrow> screens (apply_ops b ops) \<noteq> [])
   \<and> (screens (apply_ops b ops) \<noteq> [] \<longrightarrow>
        getCurrent (apply_ops b ops) = Obj (last (screens (apply_ops b ops))))"
proof (intro conjI impI)
  show "pop b = (length (screens b) > 1,
            if length (screens b) > 1 then b\<lparr>screens := butlast (screens b)\<rparr> else b)"
    by (rule pop_eq)
next
  have "butlast (screens b) \<noteq> screens b" if "length (screens b) > 1"
    using that by (cases "screens b" rule: rev_cases) auto
  then show "fst (pop b) = (screens (snd (pop b)) \<noteq> screens b)"
    by (simp add: pop_eq)
next
  assume "screens b \<noteq> [] \<and> \<not> uses_popForced ops"
  then show "screens (apply_ops b ops) \<noteq> []"
    by (simp add: apply_ops_nonempty)
next
  assume "screens (apply_ops b ops) \<noteq> []"
  then show "getCurrent (apply_ops b ops) = Obj (last (screens (apply_ops b ops)))"
    by (rule getCurrent_nonempty)
qed

theorem pop_leaves_one_screen_witness:
  "screens \<lparr>screens = [0]\<rparr> \<noteq> [] \<and> \<not> uses_popForced [Pop, Push 1, Pop, Pop]
   \<and> screens (apply_ops \<lparr>screens = [0]\<rparr> [Pop, Push 1, Pop, Pop]) = [0]
   \<and> getCurrent (apply_ops \<lparr>screens = [0]\<rparr> [Pop, Push 1, Pop, Pop]) = Obj 0"
  using pop_leaves_one_screen [of "\<lparr>screens = [0]\<rparr>" "[Pop, Push 1, Pop, Pop]"]
  by (simp add: pop_eq push_eq)

text \<open>
  C6, as stated, fails: \<open>getCurrent\<close> of an empty Backstack raises nothing; it reads the
  array at index \<open>-1\<close> and returns \<open>undefined\<close>.
\<close>

theorem getCurrent_empty_counterexample:
  "getCurrent \<lparr>screens = []\<rparr> = Undefined"
  by (simp add: getCurrent_def array_get_def)

text \<open>
  C6, amended. For an empty Backstack \<open>getCurrent\<close> returns \<open>undefined\<close>; the failure is
  the caller's: \<open>Tab.getHtml\<close> (\<open>setCurrentScreenHTML\<close> in \<^verbatim>\<open>part_001\<close>) and \<open>Tab.destroy\<close>
  throw a TypeError when they call a method on that result, before changing anything.
\<close>

theorem getCurrent_empty_undefined:
  "screens (backstack (tabObj w tab)) = [] \<Longrightarrow>
     getCurrent (backstack (tabObj w tab)) = Undefined
     \<and> Tab_getHtml tab w = Throws TypeError w
     \<and> Tab_setCurrentScreenHTML_p1 tab method d forceRefresh w = Throws TypeError w
     \<and> Tab_destroy tab w = Throws TypeError w"
  by (simp add: getCurrent_empty Tab_getHtml_def Tab_setCurrentScreenHTML_p1_def Tab_destroy_def)

theorem getCurrent_empty_undefined_witness:
  "screens (backstack (tabObj page 2)) = []
   \<and> getCurrent (backstack (tabObj page 2)) = Undefined
   \<and> Tab_getHtml 2 page = Throws TypeError page
   \<and> Tab_destroy 2 page = Throws TypeError page"
  using getCurrent_empty_undefined [of page 2]
  by (simp add: page_def no_tab_def)

text \<open>
  C10. \<open>push\<close> returns true for every Backstack and every Screen. So \<open>Tab.onGo\<close> (both
  copies) and \<open>Tab.onSubmit\<close> of \<^verbatim>\<open>part_001\<close> always take the branch that loads the new
  Screen: they return, and all they add to the trace is the request, never the
  \<open>console.error\<close> of a failed push.
\<close>

theorem push_never_fails:
  "fst (push b s)
   \<and> returns (Tab_onGo tab u w)
   \<and> trace (state_of (Tab_onGo tab u w)) = trace w @ [AjaxSent u ''GET'' None]
   \<and> returns (Tab_onGo_p1 tab u w)
   \<and> trace (state_of (Tab_onGo_p1 tab u w)) = trace w @ [AjaxSent u ''GET'' None]
   \<and> returns (Tab_onSubmit_p1 tab action method d w)
   \<and> trace (state_of (Tab_onSubmit_p1 tab action method d w))
       = trace w @ [AjaxSent action (toUpperCase method) d]"
  by (simp add: push_eq Tab_onGo_eq Tab_onGo_p1_eq Tab_onSubmit_p1_eq world_ops)

section \<open>Claims about the Tab transitions\<close>

lemma emit_fields [simp]:
  "screenObj (emit ev w) = screenObj w" "nextRef (emit ev w) = nextRef w"
  "tabObj (emit ev w) = tabObj w" "tabs (emit ev w) = tabs w"
  "selectedTabViewId (emit ev w) = selectedTabViewId w" "document (emit ev w) = document w"
  "viewport (emit ev w) = viewport w" "viewportVisibility (emit ev w) = viewportVisibility w"
  "pending (emit ev w) = pending w" "trace (emit ev w) = trace w @ [ev]"
  "render (emit ev w) = render w"
  by (simp_all add: emit_def)

lemmas page_defs =
  home_loaded_def page_def setupOverrides_def setRefreshOverride_def
  setSubmitOverride_def setGoAndClearOverride_def setBackOverride_def setGoOverride_def
  setBackVisibilityOverride_def jq_click_def jq_submit_def jq_css_visibility_def jq_each_def
  set_htmlCode_def Screen_new_def

lemma home_loaded_fields:
  "screenObj home_loaded 0 = \<lparr>url = ''Home'', htmlCode = Some ''<home>'', forceRefreshOnLoad = False\<rparr>"
  "screenObj home_loaded (Suc 0) = \<lparr>url = ''B'', htmlCode = None, forceRefreshOnLoad = False\<rparr>"
  "nextRef home_loaded = 2"
  "tabObj home_loaded 0 = \<lparr>backstack = \<lparr>screens = [0]\<rparr>, viewId = ''tab-one''\<rparr>"
  "tabObj home_loaded (Suc 0) = \<lparr>backstack = \<lparr>screens = [1]\<rparr>, viewId = ''tab-two''\<rparr>"
  "tabs home_loaded = [0, 1]"
  "selectedTabViewId home_loaded = ''tab-one''"
  "viewport home_loaded = Some ''<home>''"
  "pending home_loaded = []"
  "trace home_loaded = []"
  by (simp_all add: page_defs)

lemma Tab_onBack_single:
  "length (screens (backstack (tabObj w tab))) = 1 \<Longrightarrow>
     Tab_onBack tab w = Returns (emit (ConsoleLog (onBack_diagnostic 1)) w)"
  by (simp add: Tab_onBack_def pop_eq set_backstack_def)

lemma Tab_onBack_p1_single:
  "length (screens (backstack (tabObj w tab))) = 1 \<Longrightarrow>
     Tab_onBack_p1 tab w = Returns (emit (ConsoleLog (onBack_diagnostic 1)) w)"
  by (simp add: Tab_onBack_p1_def pop_eq set_backstack_def)

text \<open>
  C7. For a Tab whose Backstack holds exactly one Screen, \<open>Tab.onBack\<close> (both copies) changes
  nothing but the trace, to which it adds one \<open>console.log\<close>: the Backstack, the Screens, the
  viewport and the requests in flight are as before, so no fetch is issued.
\<close>

theorem back_at_depth_one:
  assumes "length (screens (backstack (tabObj w tab))) = 1"
  shows "Tab_onBack tab w = Returns (emit (ConsoleLog (onBack_diagnostic 1)) w)
     \<and> Tab_onBack_p1 tab w = Returns (emit (ConsoleLog (onBack_diagnostic 1)) w)
     \<and> tabObj (state_of (Tab_onBack tab w)) = tabObj w
     \<and> screenObj (state_of (Tab_onBack tab w)) = screenObj w
     \<and> pending (state_of (Tab_onBack tab w)) = pending w
     \<and> viewport (state_of (Tab_onBack tab w)) = viewport w
     \<and> added w (state_of (Tab_onBack tab w)) = [ConsoleLog (onBack_diagnostic 1)]"
  using assms by (simp add: Tab_onBack_single Tab_onBack_p1_single added_def)

theorem back_at_depth_one_witness:
  "length (screens (backstack (tabObj home_loaded 0))) = 1
   \<and> stack_urls 0 (state_of (Tab_onBack 0 home_loaded)) = [''Home'']
   \<and> pending (state_of (Tab_onBack 0 home_loaded)) = []
   \<and> added home_loaded (state_of (Tab_onBack 0 home_loaded)) = [ConsoleLog (onBack_diagnostic 1)]"
proof -
  have h: "length (screens (backstack (tabObj home_loaded 0))) = 1"
    by (simp add: home_loaded_fields)
  from back_at_depth_one [OF h] show ?thesis
    by (simp add: stack_urls_def home_loaded_fields added_def)
qed

text \<open>
  The back interceptor of a Screen runs \<open>Screen.destroy\<close> before it calls \<open>Tab.onBack\<close>:
  at depth one the click as a whole leaves the Backstack alone and logs the diagnostic, and
  the interceptors it released are not bound again.
\<close>

lemma back_click_at_depth_one:
  "length (screens (backstack (tabObj w tab))) = 1 \<Longrightarrow>
     fire (BackOverride self tab) e w
       = Returns (emit (ConsoleLog (onBack_diagnostic 1)) (Screen_destroy w))
     \<and> fire_p1 (BackOverride self tab) e w
       = Returns (emit (ConsoleLog (onBack_diagnostic 1)) (Screen_destroy w))"
  by (simp add: Tab_onBack_single Tab_onBack_p1_single Screen_destroy_def clearGoOverride_def
      clearBackOverride_def clearGoAndClearOverride_def clearSubmitOverride_def
      clearRefreshOverride_def jq_off_def jq_each_def)

lemma Tab_onGoAndClear_eq:
  "Tab_onGoAndClear tab u w =
     Returns
       (jq_get u (InitialiseDone (nextRef w) (butlast (screens (backstack (tabObj w tab))) \<noteq> []) tab)
          (set_backstack tab
             ((backstack (tabObj w tab))
                \<lparr>screens := butlast (screens (backstack (tabObj w tab))) @ [nextRef w]\<rparr>)
             (snd (new_Screen u w))))"
  by (simp add: Tab_onGoAndClear_def popForced_eq push_eq Tab_getHtml_def getCurrent_snoc
      Screen_initialise_def isHeaderBackVisible_def new_Screen_def set_backstack_def Screen_new_def)

lemma Tab_onGoAndClear_p1_eq:
  "Tab_onGoAndClear_p1 tab u w =
     Returns
       (jq_get u (GetHtmlDone (nextRef w) (butlast (screens (backstack (tabObj w tab))) \<noteq> []) tab)
          (set_backstack tab
             ((backstack (tabObj w tab))
                \<lparr>screens := butlast (screens (backstack (tabObj w tab))) @ [nextRef w]\<rparr>)
             (snd (new_Screen u w))))"
  by (simp add: Tab_onGoAndClear_p1_def popForced_eq Tab_onGo_p1_eq new_Screen_def set_backstack_def)

text \<open>
  C8. \<open>Tab.onGoAndClear\<close> (both copies) drops the top Screen, also when it is the only one,
  pushes a new Screen for the destination, and requests the destination's markup with a GET;
  nothing is written from a cache. From [Home], go-and-replace to \<open>page3\<close> leaves [page3].
\<close>

theorem go_and_replace:
  "returns (Tab_onGoAndClear tab u w)
   \<and> screens (backstack (tabObj (state_of (Tab_onGoAndClear tab u w)) tab))
       = butlast (screens (backstack (tabObj w tab))) @ [nextRef w]
   \<and> screenObj (state_of (Tab_onGoAndClear tab u w)) (nextRef w) = Screen_new u
   \<and> pending (state_of (Tab_onGoAndClear tab u w))
       = pending w @
         [\<lparr>req_url = u, req_type = ''GET'', req_data = None, req_forceRefreshOnLoad = None,
           req_cont = InitialiseDone (nextRef w) (butlast (screens (backstack (tabObj w tab))) \<noteq> []) tab\<rparr>]
   \<and> added w (state_of (Tab_onGoAndClear tab u w)) = [AjaxSent u ''GET'' None]
   \<and> returns (Tab_onGoAndClear_p1 tab u w)
   \<and> screens (backstack (tabObj (state_of (Tab_onGoAndClear_p1 tab u w)) tab))
       = butlast (screens (backstack (tabObj w tab))) @ [nextRef w]
   \<and> screenObj (state_of (Tab_onGoAndClear_p1 tab u w)) (nextRef w) = Screen_new u
   \<and> pending (state_of (Tab_onGoAndClear_p1 tab u w))
       = pending w @
         [\<lparr>req_url = u, req_type = ''GET'', req_data = None, req_forceRefreshOnLoad = None,
           req_cont = GetHtmlDone (nextRef w) (butlast (screens (backstack (tabObj w tab))) \<noteq> []) tab\<rparr>]
   \<and> added w (state_of (Tab_onGoAndClear_p1 tab u w)) = [AjaxSent u ''GET'' None]
   \<and> stack_urls 0 (state_of (Tab_onGoAndClear 0 ''page3'' home_loaded)) = [''page3'']
   \<and> stack_urls 0 (state_of (Tab_onGoAndClear_p1 0 ''page3'' home_loaded)) = [''page3'']"
  by (simp add: Tab_onGoAndClear_eq Tab_onGoAndClear_p1_eq world_ops stack_urls_def
      home_loaded_fields Screen_new_def added_def)

section \<open>Claims about the Screen\<close>

lemma matches_upd [simp]:
  "matches sel (e\<lparr>el_click := c\<rparr>) = matches sel e"
  "matches sel (e\<lparr>el_submit := sb\<rparr>) = matches sel e"
  "matches sel (e\<lparr>el_visibility := v\<rparr>) = matches sel e"
  by (simp_all add: matches_def split: list.splits)

lemma document_Screen_destroy: "document (Screen_destroy w) = map release (document w)"
  by (simp add: Screen_destroy_def clearGoOverride_def clearBackOverride_def
      clearGoAndClearOverride_def clearSubmitOverride_def clearRefreshOverride_def
      jq_off_def jq_each_def release_def Let_def o_def)

lemma release_idem: "release (release e) = release e"
  by (simp add: release_def Let_def)

lemma unbound_release: "unbound (release e)"
  by (simp add: release_def Let_def unbound_def)

lemma Screen_destroy_fields:
  "screenObj (Screen_destroy w) = screenObj w" "nextRef (Screen_destroy w) = nextRef w"
  "tabObj (Screen_destroy w) = tabObj w" "tabs (Screen_destroy w) = tabs w"
  "selectedTabViewId (Screen_destroy w) = selectedTabViewId w"
  "viewport (Screen_destroy w) = viewport w"
  "viewportVisibility (Screen_destroy w) = viewportVisibility w"
  "pending (Screen_destroy w) = pending w"
  "render (Screen_destroy w) = render w"
  "trace (Screen_destroy w) = trace w @ destroy_events"
  by (simp_all add: Screen_destroy_def clearGoOverride_def clearBackOverride_def
      clearGoAndClearOverride_def clearSubmitOverride_def clearRefreshOverride_def
      jq_off_def jq_each_def destroy_events_def)

text \<open>
  C9. \<open>Screen.destroy\<close> called twice leaves the page as \<open>Screen.destroy\<close> called once does
  (only the trace tells the two apart, by the second run of \<open>off\<close> calls), and after it no
  element that matches one of the five terms holds an interceptor.
\<close>

theorem destroy_twice_is_destroy_once:
  "(Screen_destroy (Screen_destroy w))\<lparr>trace := []\<rparr> = (Screen_destroy w)\<lparr>trace := []\<rparr>
   \<and> list_all unbound (document (Screen_destroy w))"
proof
  have "document (Screen_destroy (Screen_destroy w)) = document (Screen_destroy w)"
    by (simp add: document_Screen_destroy release_idem)
  then show "(Screen_destroy (Screen_destroy w))\<lparr>trace := []\<rparr> = (Screen_destroy w)\<lparr>trace := []\<rparr>"
    by (simp add: world.equality Screen_destroy_fields)
next
  show "list_all unbound (document (Screen_destroy w))"
    by (simp add: document_Screen_destroy list_all_iff unbound_release)
qed

theorem destroy_twice_is_destroy_once_witness:
  "\<not> list_all unbound (document home_loaded)
   \<and> list_all unbound (document (Screen_destroy home_loaded))
   \<and> document (Screen_destroy (Screen_destroy home_loaded)) = document (Screen_destroy home_loaded)"
proof -
  have "\<not> list_all unbound (document home_loaded)"
    by (simp add: page_defs unbound_def matches_def goTerm_def backTerm_def goAndClearTerm_def
        submitTerm_def refreshTerm_def tab_one_button_def tab_two_button_def back_button_def
        refresh_link_def go_link_def save_form_def plain_element_def)
  moreover have "document (Screen_destroy (Screen_destroy home_loaded)) = document (Screen_destroy home_loaded)"
    using arg_cong [OF conjunct1 [OF destroy_twice_is_destroy_once [of home_loaded]], of document]
    by simp
  ultimately show ?thesis
    using destroy_twice_is_destroy_once [of home_loaded] by simp
qed

lemma initialise_callback_flag:
  "forceRefreshOnLoad (screenObj (snd (initialise_callback this self isBackVisible cb code w)) r)
     = forceRefreshOnLoad (screenObj w r)"
  by (simp add: initialise_callback_def Let_def onGetHTML_def animateIn_def setupOverrides_def
      setRefreshOverride_def setSubmitOverride_def setGoAndClearOverride_def setBackOverride_def
      setGoOverride_def setBackVisibilityOverride_def jq_click_def jq_submit_def
      jq_css_visibility_def jq_each_def jq_html_def jq_viewport_visibility_def set_htmlCode_def
      split: option.splits)

lemma initialise_callback_htmlCode:
  "htmlCode (screenObj (snd (initialise_callback this self isBackVisible cb code w)) self) = Some code"
  by (simp add: initialise_callback_def Let_def onGetHTML_def animateIn_def setupOverrides_def
      setRefreshOverride_def setSubmitOverride_def setGoAndClearOverride_def setBackOverride_def
      setGoOverride_def setBackVisibilityOverride_def jq_click_def jq_submit_def
      jq_css_visibility_def jq_each_def jq_html_def jq_viewport_visibility_def set_htmlCode_def)

lemma home_stale_fields:
  "screenObj home_stale 0 = \<lparr>url = ''Home'', htmlCode = Some ''<home>'', forceRefreshOnLoad = True\<rparr>"
  "pending home_stale = []"
  by (simp_all add: home_stale_def set_forceRefreshOnLoad_def home_loaded_fields)

text \<open>
  C4, evaluated on \<^verbatim>\<open>backstack.js\<close>. When the fetch of \<open>initialise\<close> or
  \<open>initialiseIgnoreCache\<close> completes, the markup is stored in the Screen's \<open>htmlCode\<close>, but
  \<open>forceRefreshOnLoad\<close> of the Screen is what it was: the callback assigns
  \<open>this.forceRefreshOnLoad\<close>, and its \<open>this\<close> is the request's settings object. On Home
  with the flag set, the flag is still set after the fresh markup has arrived.
\<close>

theorem stale_flag_survives_fetch:
  "forceRefreshOnLoad (screenObj (snd (initialise_callback this self isBackVisible cb code w)) self)
     = forceRefreshOnLoad (screenObj w self)
   \<and> htmlCode (screenObj (snd (initialise_callback this self isBackVisible cb code w)) self) = Some code
   \<and> req_forceRefreshOnLoad (fst (initialise_callback this self isBackVisible cb code w)) = Some False
   \<and> pending (Screen_initialise 0 False 0 home_stale)
       = [\<lparr>req_url = ''Home'', req_type = ''GET'', req_data = None, req_forceRefreshOnLoad = None,
           req_cont = InitialiseDone 0 False 0\<rparr>]
   \<and> screenObj (succeed 0 ''<fresh>'' (Screen_initialise 0 False 0 home_stale)) 0
       = \<lparr>url = ''Home'', htmlCode = Some ''<fresh>'', forceRefreshOnLoad = True\<rparr>
   \<and> screenObj (succeed 0 ''<fresh>'' (Screen_initialiseIgnoreCache 0 False 0 home_stale)) 0
       = \<lparr>url = ''Home'', htmlCode = Some ''<fresh>'', forceRefreshOnLoad = True\<rparr>"
proof (intro conjI)
  show "forceRefreshOnLoad (screenObj (snd (initialise_callback this self isBackVisible cb code w)) self)
     = forceRefreshOnLoad (screenObj w self)"
    by (rule initialise_callback_flag)
  show "htmlCode (screenObj (snd (initialise_callback this self isBackVisible cb code w)) self) = Some code"
    by (rule initialise_callback_htmlCode)
  show "req_forceRefreshOnLoad (fst (initialise_callback this self isBackVisible cb code w)) = Some False"
    by (simp add: initialise_callback_def Let_def)
  have init: "Screen_initialise 0 False 0 home_stale
      = jq_get ''Home'' (InitialiseDone 0 False 0) home_stale"
    by (simp add: Screen_initialise_def home_stale_fields)
  have ign: "Screen_initialiseIgnoreCache 0 False 0 home_stale
      = jq_get ''Home'' (InitialiseDone 0 False 0) home_stale"
    by (simp add: Screen_initialiseIgnoreCache_def home_stale_fields)
  show "pending (Screen_initialise 0 False 0 home_stale)
       = [\<lparr>req_url = ''Home'', req_type = ''GET'', req_data = None, req_forceRefreshOnLoad = None,
           req_cont = InitialiseDone 0 False 0\<rparr>]"
    by (simp add: init jq_get_def jq_ajax_def home_stale_fields)
  have fin: "screenObj (succeed 0 ''<fresh>'' (jq_get ''Home'' (InitialiseDone 0 False 0) home_stale)) 0
       = \<lparr>url = ''Home'', htmlCode = Some ''<fresh>'', forceRefreshOnLoad = True\<rparr>"
    by (simp add: succeed_def success_callback_def jq_get_def jq_ajax_def home_stale_fields
        remove_nth_def initialise_callback_def Let_def onGetHTML_def animateIn_def setupOverrides_def
        setRefreshOverride_def setSubmitOverride_def setGoAndClearOverride_def setBackOverride_def
        setGoOverride_def setBackVisibilityOverride_def jq_click_def jq_submit_def
        jq_css_visibility_def jq_each_def jq_html_def jq_viewport_visibility_def set_htmlCode_def)
  show "screenObj (succeed 0 ''<fresh>'' (Screen_initialise 0 False 0 home_stale)) 0
       = \<lparr>url = ''Home'', htmlCode = Some ''<fresh>'', forceRefreshOnLoad = True\<rparr>"
    by (simp only: init fin)
  show "screenObj (succeed 0 ''<fresh>'' (Screen_initialiseIgnoreCache 0 False 0 home_stale)) 0
       = \<lparr>url = ''Home'', htmlCode = Some ''<fresh>'', forceRefreshOnLoad = True\<rparr>"
    by (simp only: ign fin)
qed

section \<open>Claims about Submit and Refresh\<close>

lemmas bind_defs =
  setupOverrides_def setRefreshOverride_def setSubmitOverride_def setGoAndClearOverride_def
  setBackOverride_def setGoOverride_def setBackVisibilityOverride_def jq_click_def jq_submit_def
  jq_css_visibility_def jq_each_def

lemma setupOverrides_fields [simp]:
  "screenObj (setupOverrides self v cb w) = screenObj w" "nextRef (setupOverrides self v cb w) = nextRef w"
  "tabObj (setupOverrides self v cb w) = tabObj w" "tabs (setupOverrides self v cb w) = tabs w"
  "selectedTabViewId (setupOverrides self v cb w) = selectedTabViewId w"
  "viewport (setupOverrides self v cb w) = viewport w"
  "viewportVisibility (setupOverrides self v cb w) = viewportVisibility w"
  "pending (setupOverrides self v cb w) = pending w"
  "trace (setupOverrides self v cb w) = trace w"
  "render (setupOverrides self v cb w) = render w"
  by (simp_all add: bind_defs)

lemma onSuccess_p1_fields [simp]:
  "screenObj (onSuccess_p1 cb x u w) = screenObj w"
  "nextRef (onSuccess_p1 cb x u w) = nextRef w"
  "tabObj (onSuccess_p1 cb x u w) = tabObj w"
  "tabs (onSuccess_p1 cb x u w) = tabs w"
  "selectedTabViewId (onSuccess_p1 cb x u w) = selectedTabViewId w"
  "viewport (onSuccess_p1 cb x u w) = (case x of None \<Rightarrow> viewport w | Some code \<Rightarrow> Some code)"
  "viewportVisibility (onSuccess_p1 cb x u w) = ''visible''"
  "pending (onSuccess_p1 cb x u w) = pending w"
  "trace (onSuccess_p1 cb x u w) = trace w @ [HtmlCall x, ViewUpdated (viewId (tabObj w cb)) (Some u)]"
  by (simp_all add: onSuccess_p1_def Let_def animateIn_p1_def jq_html_def jq_viewport_visibility_def
      split: option.splits)

lemma onGetHTML_fields [simp]:
  "screenObj (onGetHTML cb x u w) = screenObj w"
  "nextRef (onGetHTML cb x u w) = nextRef w"
  "tabObj (onGetHTML cb x u w) = tabObj w"
  "tabs (onGetHTML cb x u w) = tabs w"
  "selectedTabViewId (onGetHTML cb x u w) = selectedTabViewId w"
  "viewport (onGetHTML cb x u w) = (case x of None \<Rightarrow> viewport w | Some code \<Rightarrow> Some code)"
  "viewportVisibility (onGetHTML cb x u w) = ''visible''"
  "pending (onGetHTML cb x u w) = pending w"
  "trace (onGetHTML cb x u w)
     = trace w @ [HtmlCall x, ViewUpdated (viewId (tabObj w cb)) u, ConsoleLog ''animateIn(): starting'']"
  by (simp_all add: onGetHTML_def Let_def animateIn_def jq_html_def jq_viewport_visibility_def
      split: option.splits)

lemma jq_ajax_fields [simp]:
  "screenObj (jq_ajax u ty d k w) = screenObj w" "nextRef (jq_ajax u ty d k w) = nextRef w"
  "tabObj (jq_ajax u ty d k w) = tabObj w" "tabs (jq_ajax u ty d k w) = tabs w"
  "selectedTabViewId (jq_ajax u ty d k w) = selectedTabViewId w"
  "document (jq_ajax u ty d k w) = document w"
  "viewport (jq_ajax u ty d k w) = viewport w"
  "viewportVisibility (jq_ajax u ty d k w) = viewportVisibility w"
  "pending (jq_ajax u ty d k w) = pending w @
     [\<lparr>req_url = u, req_type = ty, req_data = d, req_forceRefreshOnLoad = None, req_cont = k\<rparr>]"
  "trace (jq_ajax u ty d k w) = trace w @ [AjaxSent u ty d]"
  "render (jq_ajax u ty d k w) = render w"
  by (simp_all add: jq_ajax_def)

lemma remove_nth_last [simp]: "remove_nth (length xs) (xs @ [x]) = xs"
  by (simp add: remove_nth_def)

lemma serialize_home: "serializeArray submitTerm (Screen_destroy home_loaded) = [(''x'', ''1'')]"
  "serializeArray submitTerm home_loaded = [(''x'', ''1'')]"
  by (simp_all add: serializeArray_def document_Screen_destroy page_defs release_def Let_def
      matches_def goTerm_def backTerm_def goAndClearTerm_def
      submitTerm_def refreshTerm_def tab_one_button_def tab_two_button_def back_button_def
      refresh_link_def go_link_def save_form_def plain_element_def)

lemma save_form_fields [simp]: "el_action save_form = ''save.endpoint''" "el_method save_form = ''post''"
  by (simp_all add: save_form_def plain_element_def)

lemma toUpperCase_post: "toUpperCase ''post'' = ''POST''"
  by code_simp

text \<open>
  C2, as stated, fails on \<^verbatim>\<open>backstack.js\<close>: submitting the form on [Home] sends the data
  to \<open>save.endpoint\<close> and pushes nothing. When the response arrives the Backstack is still
  [Home], \<open>html\<close> is called with \<open>undefined\<close> and the viewport still shows Home's markup.
\<close>

theorem submit_keeps_stack_counterexample:
  "stack_urls 0 (succeed 0 ''<saved>'' (state_of (fire (SubmitOverride 0 0) save_form home_loaded)))
     = [''Home'']
   \<and> viewport (succeed 0 ''<saved>'' (state_of (fire (SubmitOverride 0 0) save_form home_loaded)))
     = Some ''<home>''
   \<and> trace (succeed 0 ''<saved>'' (state_of (fire (SubmitOverride 0 0) save_form home_loaded)))
     = [AjaxSent ''save.endpoint'' ''POST'' (Some [(''x'', ''1'')]), HtmlCall None,
        ViewUpdated ''tab-one'' None, ConsoleLog ''animateIn(): starting'']"
proof -
  have s: "serializeArray submitTerm (set_forceRefreshOnLoad 0 True home_loaded) = [(''x'', ''1'')]"
    using serialize_home(2) by (simp add: serializeArray_def set_forceRefreshOnLoad_def)
  have f: "state_of (fire (SubmitOverride 0 0) save_form home_loaded)
      = jq_ajax ''save.endpoint'' ''POST'' (Some [(''x'', ''1'')]) (SubmitFormDone 0)
          (set_forceRefreshOnLoad 0 True home_loaded)"
    by (simp add: Tab_onSubmit_def Tab_submitForm_def s toUpperCase_post)
  show ?thesis
    unfolding f
    by (simp add: succeed_def success_callback_def stack_urls_def set_forceRefreshOnLoad_def
        home_loaded_fields)
qed

lemma getCurrent_screens: "screens b = xs @ [r] \<Longrightarrow> getCurrent b = Obj r"
  by (simp add: getCurrent_def array_get_def)

text \<open>
  C2, amended. In \<^verbatim>\<open>part_001\<close>, \<open>Tab.onSubmit\<close> pushes a new Screen for the action and
  sends the data to the action with the given method; when the response arrives it is
  stored as that Screen's markup and written into the viewport, and the new Screen is still
  the current one: from [Home], a submit to \<open>save.endpoint\<close> leaves [Home, save.endpoint].
  In \<^verbatim>\<open>backstack.js\<close>, \<open>Tab.onSubmit\<close> only sends the data: the Tab's Backstack is the same
  before and after the response.
\<close>

theorem submit_pushes_action:
  fixes tab :: tabref and w :: world and action meth resp :: string and d :: formdata
  defines "s1 \<equiv> state_of (Tab_onSubmit_p1 tab action meth d w)"
    and "s2 \<equiv> succeed_p1 (length (pending w)) resp (state_of (Tab_onSubmit_p1 tab action meth d w))"
    and "t1 \<equiv> state_of (Tab_onSubmit tab action meth d w)"
    and "f2 \<equiv> succeed_p1 0 ''<saved>'' (state_of (fire_p1 (SubmitOverride 0 0) save_form home_loaded))"
  shows "returns (Tab_onSubmit_p1 tab action meth d w)
   \<and> screens (backstack (tabObj s1 tab)) = screens (backstack (tabObj w tab)) @ [nextRef w]
   \<and> screenObj s1 (nextRef w) = Screen_new action
   \<and> pending s1 = pending w @
        [\<lparr>req_url = action, req_type = toUpperCase meth, req_data = d, req_forceRefreshOnLoad = None,
          req_cont = GetHtmlDone (nextRef w) (screens (backstack (tabObj w tab)) \<noteq> []) tab\<rparr>]
   \<and> added w s1 = [AjaxSent action (toUpperCase meth) d]
   \<and> screens (backstack (tabObj s2 tab)) = screens (backstack (tabObj w tab)) @ [nextRef w]
   \<and> getCurrent (backstack (tabObj s2 tab)) = Obj (nextRef w)
   \<and> screenObj s2 (nextRef w) = \<lparr>url = action, htmlCode = Some resp, forceRefreshOnLoad = False\<rparr>
   \<and> viewport s2 = Some resp
   \<and> added s1 s2 = [HtmlCall (Some resp), ViewUpdated (viewId (tabObj w tab)) (Some action)]
   \<and> tabObj t1 = tabObj w
   \<and> pending t1 = pending w @
        [\<lparr>req_url = action, req_type = toUpperCase meth, req_data = d, req_forceRefreshOnLoad = None,
          req_cont = SubmitFormDone tab\<rparr>]
   \<and> tabObj (succeed (length (pending w)) resp t1) = tabObj w
   \<and> stack_urls 0 f2 = [''Home'', ''save.endpoint'']
   \<and> viewport f2 = Some ''<saved>''"
proof -
  have s1: "s1 = jq_ajax action (toUpperCase meth) d
          (GetHtmlDone (nextRef w) (screens (backstack (tabObj w tab)) \<noteq> []) tab)
          (set_backstack tab
             ((backstack (tabObj w tab))\<lparr>screens := screens (backstack (tabObj w tab)) @ [nextRef w]\<rparr>)
             (snd (new_Screen action w)))"
    by (simp add: s1_def Tab_onSubmit_p1_eq)
  have s2: "s2 = succeed_p1 (length (pending w)) resp s1"
    by (simp add: s2_def s1_def)
  have a: "returns (Tab_onSubmit_p1 tab action meth d w)"
    by (simp add: Tab_onSubmit_p1_eq)
  have b: "screens (backstack (tabObj s1 tab)) = screens (backstack (tabObj w tab)) @ [nextRef w]"
      "screenObj s1 (nextRef w) = Screen_new action"
      "pending s1 = pending w @
        [\<lparr>req_url = action, req_type = toUpperCase meth, req_data = d, req_forceRefreshOnLoad = None,
          req_cont = GetHtmlDone (nextRef w) (screens (backstack (tabObj w tab)) \<noteq> []) tab\<rparr>]"
      "trace s1 = trace w @ [AjaxSent action (toUpperCase meth) d]"
      "viewId (tabObj s1 tab) = viewId (tabObj w tab)"
    by (simp_all add: s1 set_backstack_def new_Screen_def)
  have c: "screens (backstack (tabObj s2 tab)) = screens (backstack (tabObj w tab)) @ [nextRef w]"
      "screenObj s2 (nextRef w) = \<lparr>url = action, htmlCode = Some resp, forceRefreshOnLoad = False\<rparr>"
      "viewport s2 = Some resp"
      "trace s2 = trace s1 @ [HtmlCall (Some resp), ViewUpdated (viewId (tabObj w tab)) (Some action)]"
    by (simp_all add: s2 b succeed_p1_def success_callback_p1_def initialise_onSuccess_p1_def Let_def
        set_htmlCode_def Screen_new_def)
  have t: "tabObj t1 = tabObj w"
      "pending t1 = pending w @
        [\<lparr>req_url = action, req_type = toUpperCase meth, req_data = d, req_forceRefreshOnLoad = None,
          req_cont = SubmitFormDone tab\<rparr>]"
      "viewport t1 = viewport w"
    by (simp_all add: t1_def Tab_onSubmit_def Tab_submitForm_def)
  have t2: "tabObj (succeed (length (pending w)) resp t1) = tabObj w"
    by (simp add: succeed_def success_callback_def t)
  have f: "state_of (fire_p1 (SubmitOverride 0 0) save_form home_loaded)
      = jq_ajax ''save.endpoint'' ''POST'' (Some [(''x'', ''1'')]) (GetHtmlDone 2 True 0)
          (set_backstack 0 \<lparr>screens = [0, 2]\<rparr> (snd (new_Screen ''save.endpoint'' (Screen_destroy home_loaded))))"
    by (simp add: Tab_onSubmit_p1_eq serialize_home toUpperCase_post Screen_destroy_fields
        home_loaded_fields)
  have g: "stack_urls 0 f2 = [''Home'', ''save.endpoint'']" "viewport f2 = Some ''<saved>''"
    unfolding f2_def f
    by (simp_all add: succeed_p1_def success_callback_p1_def initialise_onSuccess_p1_def Let_def
        set_htmlCode_def Screen_new_def stack_urls_def set_backstack_def new_Screen_def
        Screen_destroy_fields home_loaded_fields)
  from a b c t t2 g show ?thesis
    by (simp add: getCurrent_screens added_def)
qed


lemma fire_refresh:
  assumes "getCurrent (backstack (tabObj w tab)) = Obj self"
  shows "fire (RefreshOverride self tab) e w =
     Returns (jq_get (url (screenObj w self))
                (InitialiseDone self (isHeaderBackVisible (tabObj w tab)) tab)
                (Screen_destroy
                   (set_forceRefreshOnLoad self True
                      (emit (ConsoleLog ''setRefreshOverride(): onClick'') w))))"
  using assms
  by (simp add: Tab_onRefresh_def Tab_getHtml_def Screen_destroy_fields set_forceRefreshOnLoad_def
      Screen_initialise_def)

lemma fire_refresh_p1:
  assumes "getCurrent (backstack (tabObj w tab)) = Obj self"
  shows "fire_p1 (RefreshOverride self' tab) e w =
     Returns (Screen_initialise_p1 self ''GET'' None (isHeaderBackVisible (tabObj w tab)) False tab
                (Screen_destroy w))"
  using assms
  by (simp add: Tab_onRefresh_p1_def Tab_setCurrentScreenHTML_p1_def Screen_destroy_fields)

text \<open>
  C3, as stated, fails on \<^verbatim>\<open>part_001\<close>: a click on the refresh link of the loaded Home
  issues no request; Home's cached markup is written into the viewport again.
\<close>

theorem refresh_reuses_cache_counterexample:
  "pending (state_of (fire_p1 (RefreshOverride 0 0) refresh_link home_loaded)) = []
   \<and> added home_loaded (state_of (fire_p1 (RefreshOverride 0 0) refresh_link home_loaded))
       = destroy_events @ [HtmlCall (Some ''<home>''), ViewUpdated ''tab-one'' (Some ''Home'')]"
proof -
  have g: "getCurrent (backstack (tabObj home_loaded 0)) = Obj 0"
    by (simp add: home_loaded_fields getCurrent_def array_get_def)
  show ?thesis
    unfolding fire_refresh_p1 [OF g]
    by (simp add: Screen_initialise_p1_def Screen_destroy_fields
        home_loaded_fields added_def)
qed

text \<open>
  C3, amended. Let the refresh interceptor of the Tab's current Screen fire. In
  \<^verbatim>\<open>backstack.js\<close> the Screen's \<open>forceRefreshOnLoad\<close> is set to true, its other fields
  staying as they were, and, cached or not, its url is requested with a GET and nothing is
  written from the cache; the Backstack is unchanged and the Screen is still the current one,
  and when the response arrives it becomes the Screen's markup and the viewport's content.
  In \<^verbatim>\<open>part_001\<close> the Backstack is unchanged as well and no Screen is touched, but
  \<open>Tab.onRefresh\<close> passes \<open>forceRefresh = false\<close>: cached markup is written into the
  viewport again without a request, and a request is sent only when the Screen has no
  markup yet.
\<close>

theorem refresh_transition:
  fixes tab :: tabref and w :: world and self :: ref and e :: element and resp :: string
  defines "r1 \<equiv> state_of (fire (RefreshOverride self tab) e w)"
    and "r2 \<equiv> state_of (fire_p1 (RefreshOverride self tab) e w)"
  assumes cur: "getCurrent (backstack (tabObj w tab)) = Obj self"
  shows "returns (fire (RefreshOverride self tab) e w)
   \<and> screenObj r1 self = (screenObj w self)\<lparr>forceRefreshOnLoad := True\<rparr>
   \<and> forceRefreshOnLoad (screenObj r1 self)
   \<and> tabObj r1 = tabObj w
   \<and> getCurrent (backstack (tabObj r1 tab)) = Obj self
   \<and> pending r1 = pending w @
        [\<lparr>req_url = url (screenObj w self), req_type = ''GET'', req_data = None,
          req_forceRefreshOnLoad = None,
          req_cont = InitialiseDone self (isHeaderBackVisible (tabObj w tab)) tab\<rparr>]
   \<and> added w r1 = ConsoleLog ''setRefreshOverride(): onClick'' # destroy_events
                     @ [AjaxSent (url (screenObj w self)) ''GET'' None]
   \<and> tabObj (succeed (length (pending w)) resp r1) = tabObj w
   \<and> getCurrent (backstack (tabObj (succeed (length (pending w)) resp r1) tab)) = Obj self
   \<and> url (screenObj (succeed (length (pending w)) resp r1) self) = url (screenObj w self)
   \<and> htmlCode (screenObj (succeed (length (pending w)) resp r1) self) = Some resp
   \<and> viewport (succeed (length (pending w)) resp r1) = Some resp
   \<and> returns (fire_p1 (RefreshOverride self tab) e w)
   \<and> screenObj r2 = screenObj w
   \<and> tabObj r2 = tabObj w
   \<and> getCurrent (backstack (tabObj r2 tab)) = Obj self
   \<and> (case htmlCode (screenObj w self) of
         Some cached \<Rightarrow>
           pending r2 = pending w \<and> viewport r2 = Some cached
           \<and> added w r2 = destroy_events
                @ [HtmlCall (Some cached), ViewUpdated (viewId (tabObj w tab)) (Some (url (screenObj w self)))]
       | None \<Rightarrow>
           pending r2 = pending w @
             [\<lparr>req_url = url (screenObj w self), req_type = ''GET'', req_data = None,
               req_forceRefreshOnLoad = None,
               req_cont = GetHtmlDone self (isHeaderBackVisible (tabObj w tab)) tab\<rparr>]
           \<and> added w r2 = destroy_events @ [AjaxSent (url (screenObj w self)) ''GET'' None])"
proof -
  have r1: "r1 = jq_get (url (screenObj w self))
                (InitialiseDone self (isHeaderBackVisible (tabObj w tab)) tab)
                (Screen_destroy
                   (set_forceRefreshOnLoad self True
                      (emit (ConsoleLog ''setRefreshOverride(): onClick'') w)))"
    by (simp only: r1_def fire_refresh [OF cur] state_of.simps)
  have a: "returns (fire (RefreshOverride self tab) e w)"
    by (simp only: fire_refresh [OF cur] returns.simps)
  have b: "tabObj r1 = tabObj w"
     "pending r1 = pending w @
        [\<lparr>req_url = url (screenObj w self), req_type = ''GET'', req_data = None,
          req_forceRefreshOnLoad = None,
          req_cont = InitialiseDone self (isHeaderBackVisible (tabObj w tab)) tab\<rparr>]"
     "trace r1 = trace w @ (ConsoleLog ''setRefreshOverride(): onClick'' # destroy_events
                     @ [AjaxSent (url (screenObj w self)) ''GET'' None])"
    by (simp_all add: r1 jq_get_def Screen_destroy_fields set_forceRefreshOnLoad_def
       )
  have flag: "screenObj r1 self = (screenObj w self)\<lparr>forceRefreshOnLoad := True\<rparr>"
    by (simp add: r1 jq_get_def Screen_destroy_fields set_forceRefreshOnLoad_def)
  then have flag_set: "forceRefreshOnLoad (screenObj r1 self)"
    by simp
  from b(1) cur have cur1: "getCurrent (backstack (tabObj r1 tab)) = Obj self"
    by simp
  have c: "tabObj (succeed (length (pending w)) resp r1) = tabObj w"
     "htmlCode (screenObj (succeed (length (pending w)) resp r1) self) = Some resp"
     "viewport (succeed (length (pending w)) resp r1) = Some resp"
     "url (screenObj (succeed (length (pending w)) resp r1) self) = url (screenObj w self)"
    by (simp_all add: succeed_def success_callback_def b flag initialise_callback_def Let_def
        set_htmlCode_def)
  from c(1) cur have cur1s: "getCurrent (backstack (tabObj (succeed (length (pending w)) resp r1) tab)) = Obj self"
    by simp
  have r2: "r2 = Screen_initialise_p1 self ''GET'' None (isHeaderBackVisible (tabObj w tab)) False tab
                (Screen_destroy w)"
    by (simp only: r2_def fire_refresh_p1 [OF cur] state_of.simps)
  have d: "returns (fire_p1 (RefreshOverride self tab) e w)"
    by (simp only: fire_refresh_p1 [OF cur] returns.simps)
  have "toUpperCase ''GET'' = ''GET''"
    by code_simp
  then have f: "tabObj r2 = tabObj w"
     "screenObj r2 = screenObj w"
     "(case htmlCode (screenObj w self) of
         Some cached \<Rightarrow>
           pending r2 = pending w \<and> viewport r2 = Some cached
           \<and> trace r2 = trace w @ (destroy_events
                @ [HtmlCall (Some cached), ViewUpdated (viewId (tabObj w tab)) (Some (url (screenObj w self)))])
       | None \<Rightarrow>
           pending r2 = pending w @
             [\<lparr>req_url = url (screenObj w self), req_type = ''GET'', req_data = None,
               req_forceRefreshOnLoad = None,
               req_cont = GetHtmlDone self (isHeaderBackVisible (tabObj w tab)) tab\<rparr>]
           \<and> trace r2 = trace w @ (destroy_events @ [AjaxSent (url (screenObj w self)) ''GET'' None]))"
    by (simp_all add: r2 Screen_initialise_p1_def Screen_getHtml_p1_def Screen_destroy_fields
        split: option.splits)
  from f(3) have g: "(case htmlCode (screenObj w self) of
         Some cached \<Rightarrow>
           pending r2 = pending w \<and> viewport r2 = Some cached
           \<and> added w r2 = destroy_events
                @ [HtmlCall (Some cached), ViewUpdated (viewId (tabObj w tab)) (Some (url (screenObj w self)))]
       | None \<Rightarrow>
           pending r2 = pending w @
             [\<lparr>req_url = url (screenObj w self), req_type = ''GET'', req_data = None,
               req_forceRefreshOnLoad = None,
               req_cont = GetHtmlDone self (isHeaderBackVisible (tabObj w tab)) tab\<rparr>]
           \<and> added w r2 = destroy_events @ [AjaxSent (url (screenObj w self)) ''GET'' None])"
    by (simp add: added_def split: option.splits)
  from b(3) have h: "added w r1 = ConsoleLog ''setRefreshOverride(): onClick'' # destroy_events
                     @ [AjaxSent (url (screenObj w self)) ''GET'' None]"
    by (simp add: added_def)
  from f(1) cur have cur2: "getCurrent (backstack (tabObj r2 tab)) = Obj self"
    by simp
  from a flag flag_set b(1,2) cur1 h c cur1s d f(1,2) cur2 g show ?thesis
    by (simp only: simp_thms)
qed

theorem refresh_transition_witness:
  "getCurrent (backstack (tabObj home_loaded 0)) = Obj 0
   \<and> \<not> forceRefreshOnLoad (screenObj home_loaded 0)
   \<and> forceRefreshOnLoad (screenObj (state_of (fire (RefreshOverride 0 0) refresh_link home_loaded)) 0)
   \<and> htmlCode (screenObj (state_of (fire (RefreshOverride 0 0) refresh_link home_loaded)) 0)
       = Some ''<home>''
   \<and> pending (state_of (fire (RefreshOverride 0 0) refresh_link home_loaded))
       = [\<lparr>req_url = ''Home'', req_type = ''GET'', req_data = None, req_forceRefreshOnLoad = None,
           req_cont = InitialiseDone 0 False 0\<rparr>]
   \<and> viewport (succeed 0 ''<fresh>'' (state_of (fire (RefreshOverride 0 0) refresh_link home_loaded)))
       = Some ''<fresh>''
   \<and> viewport (state_of (fire_p1 (RefreshOverride 0 0) refresh_link home_loaded)) = Some ''<home>''
   \<and> pending (state_of (fire_p1 (RefreshOverride 0 0) refresh_link home_loaded)) = []"
proof -
  have g: "getCurrent (backstack (tabObj home_loaded 0)) = Obj 0"
    by (simp add: home_loaded_fields getCurrent_def array_get_def)
  from refresh_transition [OF g, of refresh_link "''<fresh>''"] g show ?thesis
    by (simp add: home_loaded_fields isHeaderBackVisible_def)
qed

section \<open>Claims about the TabBar\<close>

lemma tab_selected_fields [simp]:
  "screenObj (tab_selected tab w) = screenObj w" "nextRef (tab_selected tab w) = nextRef w"
  "tabObj (tab_selected tab w) = tabObj w" "tabs (tab_selected tab w) = tabs w"
  "selectedTabViewId (tab_selected tab w) = selectedTabViewId w"
  "viewport (tab_selected tab w) = viewport w"
  "viewportVisibility (tab_selected tab w) = viewportVisibility w"
  "pending (tab_selected tab w) = pending w"
  "trace (tab_selected tab w) = trace w"
  "render (tab_selected tab w) = render w"
  by (simp_all add: tab_selected_def addSelectedViewClass_def removeSelectedViewClass_def
      jq_addClass_def jq_removeClass_def jq_each_def)

lemma fire_TabSelect: "fire (TabSelect tab) e w = Returns (tab_selected tab w)"
  "fire_p1 (TabSelect tab) e w = Returns (tab_selected tab w)"
  by (simp_all add: tab_selected_def)

lemma hidden_fields [simp]:
  "screenObj (jq_viewport_visibility v w) = screenObj w" "nextRef (jq_viewport_visibility v w) = nextRef w"
  "tabObj (jq_viewport_visibility v w) = tabObj w" "tabs (jq_viewport_visibility v w) = tabs w"
  "selectedTabViewId (jq_viewport_visibility v w) = selectedTabViewId w"
  "document (jq_viewport_visibility v w) = document w"
  "viewport (jq_viewport_visibility v w) = viewport w"
  "viewportVisibility (jq_viewport_visibility v w) = v"
  "pending (jq_viewport_visibility v w) = pending w"
  "trace (jq_viewport_visibility v w) = trace w"
  "render (jq_viewport_visibility v w) = render w"
  by (simp_all add: jq_viewport_visibility_def)

lemma preCreate_eq:
  assumes "find (\<lambda>t. viewId (tabObj w t) = selectedTabViewId w) (tabs w) = Some old"
    and "getCurrent (backstack (tabObj w old)) = Obj so"
  shows "preCreate tab w =
     Returns ((Screen_destroy (jq_viewport_visibility ''hidden'' (emit (ConsoleLog ''animateOut(): starting'') w)))
                \<lparr>selectedTabViewId := viewId (tabObj w tab)\<rparr>)"
  using assms
  by (simp add: preCreate_def animateOut_def findTab_def Tab_destroy_def Screen_destroy_fields)

lemma preCreate_p1_eq:
  assumes "find (\<lambda>t. viewId (tabObj w t) = selectedTabViewId w) (tabs w) = Some old"
    and "getCurrent (backstack (tabObj w old)) = Obj so"
  shows "preCreate_p1 tab w =
     Returns ((Screen_destroy (jq_viewport_visibility ''hidden'' w))
                \<lparr>selectedTabViewId := viewId (tabObj w tab)\<rparr>)"
  using assms
  by (simp add: preCreate_p1_def animateOut_p1_def findTab_def Tab_destroy_def Screen_destroy_fields)

lemma tab_click_eq:
  assumes "find (\<lambda>t. viewId (tabObj w t) = selectedTabViewId w) (tabs w) = Some old"
    and "getCurrent (backstack (tabObj w old)) = Obj so"
    and "getCurrent (backstack (tabObj w tab)) = Obj sn"
  shows "run_handlers [TabSelect tab, TabOnClick tab] e w =
     Returns (Screen_initialise sn (isHeaderBackVisible (tabObj w tab)) tab
        ((Screen_destroy (jq_viewport_visibility ''hidden''
             (emit (ConsoleLog ''animateOut(): starting'') (tab_selected tab w))))
                \<lparr>selectedTabViewId := viewId (tabObj w tab)\<rparr>))"
proof -
  have "preCreate tab (tab_selected tab w) =
     Returns ((Screen_destroy (jq_viewport_visibility ''hidden''
                 (emit (ConsoleLog ''animateOut(): starting'') (tab_selected tab w))))
                \<lparr>selectedTabViewId := viewId (tabObj w tab)\<rparr>)"
    using preCreate_eq [of "tab_selected tab w" old so tab] assms by simp
  then show ?thesis
    using assms(3)
    by (simp add: fire_TabSelect Tab_getHtml_def Screen_destroy_fields del: fire.simps(6))
qed

lemma tab_click_p1_eq:
  assumes "find (\<lambda>t. viewId (tabObj w t) = selectedTabViewId w) (tabs w) = Some old"
    and "getCurrent (backstack (tabObj w old)) = Obj so"
    and "getCurrent (backstack (tabObj w tab)) = Obj sn"
  shows "run_handlers_p1 [TabSelect tab, TabOnClick tab] e w =
     Returns (Screen_getHtml_p1 (url (screenObj w sn)) ''GET'' None
                (GetHtmlDone sn (isHeaderBackVisible (tabObj w tab)) tab)
        ((Screen_destroy (jq_viewport_visibility ''hidden'' (tab_selected tab w)))
                \<lparr>selectedTabViewId := viewId (tabObj w tab)\<rparr>))"
proof -
  have "preCreate_p1 tab (tab_selected tab w) =
     Returns ((Screen_destroy (jq_viewport_visibility ''hidden'' (tab_selected tab w)))
                \<lparr>selectedTabViewId := viewId (tabObj w tab)\<rparr>)"
    using preCreate_p1_eq [of "tab_selected tab w" old so tab] assms by simp
  then show ?thesis
    using assms(3)
    by (simp add: fire_TabSelect Tab_setCurrentScreenHTML_p1_def Screen_initialise_p1_def
        Screen_destroy_fields del: fire_p1.simps(6))
qed

lemma unbound_destroyed: "list_all unbound (document (Screen_destroy w))"
  by (simp add: document_Screen_destroy list_all_iff unbound_release)

lemma toUpperCase_GET: "toUpperCase ''GET'' = ''GET''"
  by code_simp

text \<open>
  On the example page \<open>setTabsClickListeners\<close> binds to each tab button its two handlers,
  the selection first.
\<close>

lemma tab_buttons_bound:
  "map el_click (document (setTabsClickListeners home_loaded))
     = [[TabSelect 0, TabOnClick 0], [TabSelect 1, TabOnClick 1], [BackOverride 0 0],
        [RefreshOverride 0 0], [GoOverride 0 0], []]"
  by (simp add: setTabsClickListeners_def Tab_onClick_def jq_click_def jq_each_def
      home_loaded_fields matches_def)
    (simp add: page_defs matches_def goTerm_def backTerm_def goAndClearTerm_def
        submitTerm_def refreshTerm_def tab_one_button_def tab_two_button_def back_button_def
        refresh_link_def go_link_def save_form_def plain_element_def)

text \<open>
  C5. A click on a tab button runs the two handlers that \<open>setTabsClickListeners\<close> bound to
  it. Let the selection name a Tab of the TabBar, and let that Tab and the clicked Tab each
  have a current Screen. Then the click returns with the selection set to the clicked Tab,
  and in what it adds to the trace the five \<open>off\<close> calls of \<open>Screen.destroy\<close> come before
  any write to the viewport: in \<^verbatim>\<open>backstack.js\<close> the cached markup of the clicked Tab's
  Screen is written right after them, or, when the Screen must be fetched, all that follows
  them is the request, and the write happens when the response arrives; in
  \<^verbatim>\<open>part_001\<close> the Screen is always fetched. While the request is in flight no element
  holds an interceptor and the viewport is untouched.
\<close>

theorem teardown_before_tab_content:
  fixes w :: world and tab old :: tabref and so sn :: ref and e :: element and resp :: string
  defines "c1 \<equiv> state_of (run_handlers [TabSelect tab, TabOnClick tab] e w)"
    and "c2 \<equiv> state_of (run_handlers_p1 [TabSelect tab, TabOnClick tab] e w)"
  assumes sel: "find (\<lambda>t. viewId (tabObj w t) = selectedTabViewId w) (tabs w) = Some old"
    and old: "getCurrent (backstack (tabObj w old)) = Obj so"
    and new: "getCurrent (backstack (tabObj w tab)) = Obj sn"
  shows "returns (run_handlers [TabSelect tab, TabOnClick tab] e w)
   \<and> selectedTabViewId c1 = viewId (tabObj w tab)
   \<and> (if htmlCode (screenObj w sn) = None \<or> forceRefreshOnLoad (screenObj w sn)
       then added w c1 = ConsoleLog ''animateOut(): starting'' # destroy_events
                           @ [AjaxSent (url (screenObj w sn)) ''GET'' None]
            \<and> list_all unbound (document c1)
            \<and> viewport c1 = viewport w
            \<and> added c1 (succeed (length (pending w)) resp c1)
                 = [HtmlCall (Some resp), ViewUpdated (viewId (tabObj w tab)) (Some (url (screenObj w sn))),
                    ConsoleLog ''animateIn(): starting'']
            \<and> viewport (succeed (length (pending w)) resp c1) = Some resp
       else added w c1 = ConsoleLog ''animateOut(): starting'' # destroy_events
                           @ [HtmlCall (htmlCode (screenObj w sn)),
                              ViewUpdated (viewId (tabObj w tab)) (Some (url (screenObj w sn))),
                              ConsoleLog ''animateIn(): starting'']
            \<and> viewport c1 = htmlCode (screenObj w sn))
   \<and> returns (run_handlers_p1 [TabSelect tab, TabOnClick tab] e w)
   \<and> selectedTabViewId c2 = viewId (tabObj w tab)
   \<and> added w c2 = destroy_events @ [AjaxSent (url (screenObj w sn)) ''GET'' None]
   \<and> list_all unbound (document c2)
   \<and> viewport c2 = viewport w
   \<and> added c2 (succeed_p1 (length (pending w)) resp c2)
        = [HtmlCall (Some resp), ViewUpdated (viewId (tabObj w tab)) (Some (url (screenObj w sn)))]
   \<and> viewport (succeed_p1 (length (pending w)) resp c2) = Some resp
   \<and> selectedTabViewId (succeed_p1 (length (pending w)) resp c2) = viewId (tabObj w tab)"
proof -
  let ?d1 = "(Screen_destroy (jq_viewport_visibility ''hidden''
             (emit (ConsoleLog ''animateOut(): starting'') (tab_selected tab w))))
                \<lparr>selectedTabViewId := viewId (tabObj w tab)\<rparr>"
  let ?d2 = "(Screen_destroy (jq_viewport_visibility ''hidden'' (tab_selected tab w)))
                \<lparr>selectedTabViewId := viewId (tabObj w tab)\<rparr>"
  have c1: "c1 = Screen_initialise sn (isHeaderBackVisible (tabObj w tab)) tab ?d1"
    by (simp only: c1_def tab_click_eq [OF sel old new] state_of.simps)
  have c2: "c2 = Screen_getHtml_p1 (url (screenObj w sn)) ''GET'' None
                (GetHtmlDone sn (isHeaderBackVisible (tabObj w tab)) tab) ?d2"
    by (simp only: c2_def tab_click_p1_eq [OF sel old new] state_of.simps)
  have r: "returns (run_handlers [TabSelect tab, TabOnClick tab] e w)"
      "returns (run_handlers_p1 [TabSelect tab, TabOnClick tab] e w)"
    by (simp_all only: tab_click_eq [OF sel old new] tab_click_p1_eq [OF sel old new] returns.simps)
  have d1: "screenObj ?d1 = screenObj w" "tabObj ?d1 = tabObj w" "pending ?d1 = pending w"
      "viewport ?d1 = viewport w"
      "trace ?d1 = trace w @ ConsoleLog ''animateOut(): starting'' # destroy_events"
      "selectedTabViewId ?d1 = viewId (tabObj w tab)"
      "list_all unbound (document ?d1)"
    by (simp_all add: Screen_destroy_fields unbound_destroyed)
  have d2: "screenObj ?d2 = screenObj w" "tabObj ?d2 = tabObj w" "pending ?d2 = pending w"
      "viewport ?d2 = viewport w"
      "trace ?d2 = trace w @ destroy_events"
      "selectedTabViewId ?d2 = viewId (tabObj w tab)"
      "list_all unbound (document ?d2)"
    by (simp_all add: Screen_destroy_fields unbound_destroyed)
  have sync: "selectedTabViewId c1 = viewId (tabObj w tab)
      \<and> added w c1 = ConsoleLog ''animateOut(): starting'' # destroy_events
                           @ [HtmlCall (htmlCode (screenObj w sn)),
                              ViewUpdated (viewId (tabObj w tab)) (Some (url (screenObj w sn))),
                              ConsoleLog ''animateIn(): starting'']
      \<and> viewport c1 = htmlCode (screenObj w sn)"
    if "\<not> (htmlCode (screenObj w sn) = None \<or> forceRefreshOnLoad (screenObj w sn))"
  proof -
    from that have "c1 = setupOverrides sn (isHeaderBackVisible (tabObj w tab)) tab
             (onGetHTML tab (htmlCode (screenObj w sn)) (Some (url (screenObj w sn))) ?d1)"
      by (auto simp add: c1 Screen_initialise_def d1(1))
    with that show ?thesis
      by (auto simp add: d1 added_def)
  qed
  have async: "selectedTabViewId c1 = viewId (tabObj w tab)
      \<and> added w c1 = ConsoleLog ''animateOut(): starting'' # destroy_events
                           @ [AjaxSent (url (screenObj w sn)) ''GET'' None]
      \<and> list_all unbound (document c1)
      \<and> viewport c1 = viewport w
      \<and> added c1 (succeed (length (pending w)) resp c1)
                 = [HtmlCall (Some resp), ViewUpdated (viewId (tabObj w tab)) (Some (url (screenObj w sn))),
                    ConsoleLog ''animateIn(): starting'']
      \<and> viewport (succeed (length (pending w)) resp c1) = Some resp"
    if "htmlCode (screenObj w sn) = None \<or> forceRefreshOnLoad (screenObj w sn)"
  proof -
    from that have e: "c1 = jq_ajax (url (screenObj w sn)) ''GET'' None
          (InitialiseDone sn (isHeaderBackVisible (tabObj w tab)) tab) ?d1"
      by (simp add: c1 Screen_initialise_def d1(1) jq_get_def)
    have "trace (succeed (length (pending w)) resp c1)
        = trace c1 @ [HtmlCall (Some resp), ViewUpdated (viewId (tabObj w tab)) (Some (url (screenObj w sn))),
                    ConsoleLog ''animateIn(): starting'']"
      "viewport (succeed (length (pending w)) resp c1) = Some resp"
      unfolding e
      by (simp_all add: succeed_def success_callback_def d1 initialise_callback_def Let_def
          set_htmlCode_def)
    then show ?thesis
      unfolding e by (simp add: d1 added_def unbound_destroyed)
  qed
  have p1: "selectedTabViewId c2 = viewId (tabObj w tab)"
      "added w c2 = destroy_events @ [AjaxSent (url (screenObj w sn)) ''GET'' None]"
      "list_all unbound (document c2)"
      "viewport c2 = viewport w"
    by (simp_all add: c2 Screen_getHtml_p1_def toUpperCase_GET d2 added_def unbound_destroyed)
  have q1: "trace (succeed_p1 (length (pending w)) resp c2)
        = trace c2 @ [HtmlCall (Some resp), ViewUpdated (viewId (tabObj w tab)) (Some (url (screenObj w sn)))]"
      "viewport (succeed_p1 (length (pending w)) resp c2) = Some resp"
      "selectedTabViewId (succeed_p1 (length (pending w)) resp c2) = viewId (tabObj w tab)"
    by (simp_all add: c2 Screen_getHtml_p1_def toUpperCase_GET succeed_p1_def
        success_callback_p1_def d2 initialise_onSuccess_p1_def Let_def set_htmlCode_def)
  from q1(1) have q2: "added c2 (succeed_p1 (length (pending w)) resp c2)
        = [HtmlCall (Some resp), ViewUpdated (viewId (tabObj w tab)) (Some (url (screenObj w sn)))]"
    by (simp add: added_def)
  show ?thesis
  proof (cases "htmlCode (screenObj w sn) = None \<or> forceRefreshOnLoad (screenObj w sn)")
    case True
    from async [OF True] r p1 q1(2,3) q2 True show ?thesis
      by (simp only: if_True simp_thms)
  next
    case False
    from sync [OF False] r p1 q1(2,3) q2 False show ?thesis
      by (simp only: if_False simp_thms)
  qed
qed

theorem teardown_before_tab_content_witness:
  "find (\<lambda>t. viewId (tabObj home_loaded t) = selectedTabViewId home_loaded) (tabs home_loaded) = Some 0
   \<and> getCurrent (backstack (tabObj home_loaded 0)) = Obj 0
   \<and> getCurrent (backstack (tabObj home_loaded 1)) = Obj 1
   \<and> selectedTabViewId (state_of (run_handlers [TabSelect 1, TabOnClick 1] tab_two_button home_loaded))
       = ''tab-two''
   \<and> added home_loaded (state_of (run_handlers [TabSelect 1, TabOnClick 1] tab_two_button home_loaded))
       = ConsoleLog ''animateOut(): starting'' # destroy_events @ [AjaxSent ''B'' ''GET'' None]
   \<and> added home_loaded (state_of (run_handlers_p1 [TabSelect 1, TabOnClick 1] tab_two_button home_loaded))
       = destroy_events @ [AjaxSent ''B'' ''GET'' None]
   \<and> viewport (succeed_p1 0 ''<b>''
        (state_of (run_handlers_p1 [TabSelect 1, TabOnClick 1] tab_two_button home_loaded))) = Some ''<b>''"
proof -
  have a: "find (\<lambda>t. viewId (tabObj home_loaded t) = selectedTabViewId home_loaded) (tabs home_loaded) = Some 0"
    by (simp add: home_loaded_fields)
  have b: "getCurrent (backstack (tabObj home_loaded 0)) = Obj 0"
    by (simp add: home_loaded_fields getCurrent_def array_get_def)
  have c: "getCurrent (backstack (tabObj home_loaded 1)) = Obj 1"
    by (simp add: home_loaded_fields getCurrent_def array_get_def)
  from teardown_before_tab_content [OF a b c, of tab_two_button "''<b>''"] a b c show ?thesis
    by (simp add: home_loaded_fields del: run_handlers.simps run_handlers_p1.simps)
qed

end
